theory Spec2Isabelle
  imports Complex_Main "HOL-Library.Multiset"
begin

section \<open>Data model of the plotting script\<close>

text \<open>
  The script \<^verbatim>\<open>ism_animation.py\<close> draws a two-panel figure (a room with its image
  sources, and a waveform) and animates it. Its three functions mutate plotting
  objects that are shared between the axes and the lists the functions pass around,
  so the model keeps an explicit store of objects addressed by references.

  Numbers: Python integers are \<^typ>\<open>int\<close>. Python and NumPy floating-point numbers
  are modelled as exact reals; rounding, infinities and NaN are not modelled.
\<close>

type_synonym ref = nat
type_synonym point = "real \<times> real"

datatype error = NameError | IndexError | ZeroDivisionError | ValueError | CalledProcessError

text \<open>
  A colour is either named in the source (\<^verbatim>\<open>c="k"\<close>) or drawn from the property
  cycle of an axes: \<open>Cycle k\<close> is the colour the cycle yields at its \<open>k\<close>-th draw.
\<close>

datatype color = Named string | Cycle nat

text \<open>
  A caption is a literal string, or the result of Python's \<^verbatim>\<open>str.format\<close> on a template
  with one float argument (kept symbolic: the template and the argument).
\<close>

datatype caption = Literal string | Format string real

text \<open>
  \<^verbatim>\<open>patches.Circle\<close>: the constructor arguments the source gives, and the attribute
  \<^verbatim>\<open>alpha\<close> that \<^verbatim>\<open>animate\<close> assigns (absent until then).
\<close>

record circle =
  center :: point
  radius :: real
  fill :: bool
  linewidth :: real
  edgecolor :: color
  alpha :: "real option"

record line2d =
  xdata :: "real list"
  ydata :: "real list"

record scatter =
  offsets :: "point list"
  facecolor :: color
  style :: "(string \<times> string) list"

record axes =
  aspect :: string
  collections :: "point list list list"
  scatters :: "scatter list"
  patches :: "ref list"
  lines :: "ref list"
  title :: caption
  xlabel :: string
  ylabel :: string
  xlim :: "(real \<times> real) option"
  ylim :: "(real \<times> real) option"
  cycle_pos :: nat

record store =
  axes_of :: "ref \<Rightarrow> axes"
  circle_of :: "ref \<Rightarrow> circle"
  line_of :: "ref \<Rightarrow> line2d"
  fresh :: ref

section \<open>Python and NumPy primitives\<close>

text \<open>\<^verbatim>\<open>np.arange(n)\<close> for an integer \<open>n\<close>: \<open>0, 1, ..., n - 1\<close>, empty when \<open>n \<le> 0\<close>.\<close>

definition np_arange :: "int \<Rightarrow> real list" where
  "np_arange n = map real [0..<nat n]"

text \<open>\<^verbatim>\<open>xs[:n]\<close>: a negative \<open>n\<close> counts from the end.\<close>

definition slice_to :: "'a list \<Rightarrow> int \<Rightarrow> 'a list" where
  "slice_to xs n = (if 0 \<le> n then take (nat n) xs else take (length xs - nat (- n)) xs)"

section \<open>Mutators of the plotting objects\<close>

definition set_radius :: "ref \<Rightarrow> real \<Rightarrow> store \<Rightarrow> store" where
  "set_radius p r st = st\<lparr>circle_of := (circle_of st)(p := (circle_of st p)\<lparr>radius := r\<rparr>)\<rparr>"

definition assign_alpha :: "ref \<Rightarrow> real \<Rightarrow> store \<Rightarrow> store" where
  "assign_alpha p a st = st\<lparr>circle_of := (circle_of st)(p := (circle_of st p)\<lparr>alpha := Some a\<rparr>)\<rparr>"

definition set_data :: "ref \<Rightarrow> real list \<Rightarrow> real list \<Rightarrow> store \<Rightarrow> store" where
  "set_data l xs ys st = st\<lparr>line_of := (line_of st)(l := \<lparr>xdata = xs, ydata = ys\<rparr>)\<rparr>"

definition title_set_text :: "ref \<Rightarrow> caption \<Rightarrow> store \<Rightarrow> store" where
  "title_set_text ax t st = st\<lparr>axes_of := (axes_of st)(ax := (axes_of st ax)\<lparr>title := t\<rparr>)\<rparr>"

section \<open>animate\<close>

text \<open>
  \<^verbatim>\<open>
  def animate(frame_num, ax, line, propagations, rir, fs):
      t_ind = frame_num / fs
      for propagation in propagations:
          propagation.set_radius(t_ind * 343.0)
          propagation.alpha = 1 - t_ind * 10
          line.set_data(np.arange(frame_num) / fs, rir[:frame_num])
          ax.title.set_text(
              "Room Impulse Response of a shoebox room " "(t = {:.3f}s)".format(t_ind))
  \<close>
  The line and title updates sit inside the loop over the circles.
\<close>

definition animate_title :: "real \<Rightarrow> caption" where
  "animate_title t_ind = Format ''Room Impulse Response of a shoebox room (t = {:.3f}s)'' t_ind"

definition animate_body :: "int \<Rightarrow> ref \<Rightarrow> ref \<Rightarrow> real list \<Rightarrow> real \<Rightarrow> real \<Rightarrow> ref \<Rightarrow> store \<Rightarrow> store" where
  "animate_body frame_num ax line rir fs t_ind propagation st =
     (let st1 = set_radius propagation (t_ind * 343.0) st;
          st2 = assign_alpha propagation (1 - t_ind * 10) st1;
          st3 = set_data line (map (\<lambda>k. k / fs) (np_arange frame_num)) (slice_to rir frame_num) st2
      in title_set_text ax (animate_title t_ind) st3)"

fun animate_loop :: "int \<Rightarrow> ref \<Rightarrow> ref \<Rightarrow> real list \<Rightarrow> real \<Rightarrow> real \<Rightarrow> ref list \<Rightarrow> store \<Rightarrow> store" where
  "animate_loop frame_num ax line rir fs t_ind [] st = st"
| "animate_loop frame_num ax line rir fs t_ind (propagation # rest) st =
     animate_loop frame_num ax line rir fs t_ind rest
       (animate_body frame_num ax line rir fs t_ind propagation st)"

text \<open>Python's true division raises \<^verbatim>\<open>ZeroDivisionError\<close> on a zero divisor, before any update.\<close>

definition animate :: "int \<Rightarrow> ref \<Rightarrow> ref \<Rightarrow> ref list \<Rightarrow> real list \<Rightarrow> real \<Rightarrow> store \<Rightarrow> (error + unit) \<times> store" where
  "animate frame_num ax line propagations rir fs st =
     (if fs = 0 then (Inl ZeroDivisionError, st)
      else (Inr (), animate_loop frame_num ax line rir fs (real_of_int frame_num / fs) propagations st))"

section \<open>plot_room\<close>

text \<open>
  The rooms are two-dimensional: a position is a pair, a wall is the segment between its
  two corners (\<^verbatim>\<open>wall.corners[:, 0]\<close> is the first), and the image sources of a sound
  source are the columns of \<^verbatim>\<open>images\<close> together with their reflection orders.
\<close>

type_synonym wall = "point \<times> point"

record sound_source =
  images :: "point list"
  orders :: "int list"

text \<open>\<^verbatim>\<open>range(n)\<close> for an integer \<open>n\<close>.\<close>

definition py_range :: "int \<Rightarrow> int list" where
  "py_range n = map int [0..<nat n]"

definition upd_axes :: "ref \<Rightarrow> (axes \<Rightarrow> axes) \<Rightarrow> store \<Rightarrow> store" where
  "upd_axes a f st = st\<lparr>axes_of := (axes_of st)(a := f (axes_of st a))\<rparr>"

definition set_aspect :: "ref \<Rightarrow> string \<Rightarrow> store \<Rightarrow> store" where
  "set_aspect a s = upd_axes a (\<lambda>x. x\<lparr>aspect := s\<rparr>)"

definition add_collection :: "ref \<Rightarrow> point list list \<Rightarrow> store \<Rightarrow> store" where
  "add_collection a c = upd_axes a (\<lambda>x. x\<lparr>collections := collections x @ [c]\<rparr>)"

text \<open>\<^verbatim>\<open>scatter\<close> with an explicit colour \<^verbatim>\<open>c\<close> leaves the property cycle alone.\<close>

definition scatter_with :: "ref \<Rightarrow> point list \<Rightarrow> color \<Rightarrow> (string \<times> string) list \<Rightarrow> store \<Rightarrow> store" where
  "scatter_with a pts c kw =
     upd_axes a (\<lambda>x. x\<lparr>scatters := scatters x @ [\<lparr>offsets = pts, facecolor = c, style = kw\<rparr>]\<rparr>)"

text \<open>
  \<^verbatim>\<open>ims = axs[0].scatter(x, y); color = ims.get_facecolors()[0]\<close>: without a colour
  argument the markers take the next colour of the axes' cycle, which is returned.
\<close>

definition scatter_next :: "ref \<Rightarrow> point list \<Rightarrow> store \<Rightarrow> color \<times> store" where
  "scatter_next a pts st =
     (let c = Cycle (cycle_pos (axes_of st a))
      in (c, upd_axes a (\<lambda>x. x\<lparr>scatters := scatters x @ [\<lparr>offsets = pts, facecolor = c, style = []\<rparr>],
                                 cycle_pos := Suc (cycle_pos x)\<rparr>) st))"

definition new_circle :: "circle \<Rightarrow> store \<Rightarrow> ref \<times> store" where
  "new_circle c st = (fresh st, st\<lparr>circle_of := (circle_of st)(fresh st := c), fresh := Suc (fresh st)\<rparr>)"

definition add_patch :: "ref \<Rightarrow> ref \<Rightarrow> store \<Rightarrow> store" where
  "add_patch a p = upd_axes a (\<lambda>x. x\<lparr>patches := patches x @ [p]\<rparr>)"

text \<open>\<^verbatim>\<open>axs[1].plot(xs, ys)\<close> creates a line, adds it to the axes and returns it.\<close>

definition plot :: "ref \<Rightarrow> real list \<Rightarrow> real list \<Rightarrow> store \<Rightarrow> ref \<times> store" where
  "plot a xs ys st =
     (fresh st,
      upd_axes a (\<lambda>x. x\<lparr>lines := lines x @ [fresh st]\<rparr>)
        (st\<lparr>line_of := (line_of st)(fresh st := \<lparr>xdata = xs, ydata = ys\<rparr>), fresh := Suc (fresh st)\<rparr>))"

definition set_xlabel :: "ref \<Rightarrow> string \<Rightarrow> store \<Rightarrow> store" where
  "set_xlabel a s = upd_axes a (\<lambda>x. x\<lparr>xlabel := s\<rparr>)"

definition set_ylabel :: "ref \<Rightarrow> string \<Rightarrow> store \<Rightarrow> store" where
  "set_ylabel a s = upd_axes a (\<lambda>x. x\<lparr>ylabel := s\<rparr>)"

definition set_xlim :: "ref \<Rightarrow> real \<times> real \<Rightarrow> store \<Rightarrow> store" where
  "set_xlim a l = upd_axes a (\<lambda>x. x\<lparr>xlim := Some l\<rparr>)"

definition set_ylim :: "ref \<Rightarrow> real \<times> real \<Rightarrow> store \<Rightarrow> store" where
  "set_ylim a l = upd_axes a (\<lambda>x. x\<lparr>ylim := Some l\<rparr>)"

text \<open>
  \<^verbatim>\<open>im_sources.images[:, im_sources.orders == order]\<close>: the positions of the image
  sources of the given order, in their order of appearance.
\<close>

definition images_of_order :: "sound_source \<Rightarrow> int \<Rightarrow> point list" where
  "images_of_order im_sources order =
     map fst (filter (\<lambda>(pt, k). k = order) (zip (images im_sources) (orders im_sources)))"

text \<open>
  \<^verbatim>\<open>
  for i in range(indices.sum()):
      circle = patches.Circle(
          (x[i], y[i]), radius=0, fill=False, linewidth=2, edgecolor=color)
      axs[0].add_patch(circle)
      propagations.append(circle)
  \<close>
\<close>

fun circles_loop :: "ref \<Rightarrow> color \<Rightarrow> point list \<Rightarrow> ref list \<Rightarrow> store \<Rightarrow> ref list \<times> store" where
  "circles_loop a col [] propagations st = (propagations, st)"
| "circles_loop a col (pt # pts) propagations st =
     (let (circ, st1) = new_circle \<lparr>center = pt, radius = 0, fill = False, linewidth = 2,
                                     edgecolor = col, alpha = None\<rparr> st;
          st2 = add_patch a circ st1
      in circles_loop a col pts (propagations @ [circ]) st2)"

text \<open>
  \<^verbatim>\<open>
  for order in range(max_order + 1):
      indices = im_sources.orders == order
      (x, y) = im_sources.images[:, indices]
      ims = axs[0].scatter(x, y)
      color = ims.get_facecolors()[0]
      for i in range(indices.sum()): ...
  \<close>
  A boolean mask whose length differs from the number of columns of \<^verbatim>\<open>images\<close> makes
  NumPy raise \<^verbatim>\<open>IndexError\<close>.
\<close>

fun orders_loop :: "ref \<Rightarrow> sound_source \<Rightarrow> int list \<Rightarrow> ref list \<Rightarrow> store \<Rightarrow> (error + ref list) \<times> store" where
  "orders_loop a im_sources [] propagations st = (Inr propagations, st)"
| "orders_loop a im_sources (order # rest) propagations st =
     (if length (orders im_sources) \<noteq> length (images im_sources) then (Inl IndexError, st)
      else
        (let pts = images_of_order im_sources order;
             (col, st1) = scatter_next a pts st;
             (propagations', st2) = circles_loop a col pts propagations st1
         in orders_loop a im_sources rest propagations' st2))"

text \<open>
  The statements of \<^verbatim>\<open>plot_room\<close> before the loop (\<^verbatim>\<open># Plot room\<close>,
  \<^verbatim>\<open># Plot microphones\<close>): the aspect, the polygon through the first corners of the
  walls, and the microphone as a black cross.
\<close>

definition plot_walls_and_mic :: "ref \<Rightarrow> wall list \<Rightarrow> point \<Rightarrow> store \<Rightarrow> store" where
  "plot_walls_and_mic ax walls mic_pos st =
     (let st1 = set_aspect ax ''equal'' st;
          corners = map fst walls;
          st2 = add_collection ax [corners] st1
      in scatter_with ax [mic_pos] (Named ''k'')
           [(''marker'', ''x''), (''linewidth'', ''0.5''), (''s'', ''10''),
            (''label'', ''microphone position'')] st2)"

text \<open>The two blocks \<^verbatim>\<open># Set title and axes labels\<close>, for \<^verbatim>\<open>axs[0]\<close> and \<^verbatim>\<open>axs[1]\<close>.\<close>

definition set_labels :: "ref \<times> ref \<Rightarrow> store \<Rightarrow> store" where
  "set_labels axs st =
     (let st1 = title_set_text (fst axs) (Literal ''Room Impulse Response of a shoebox room'') st;
          st2 = set_xlabel (fst axs) ''x-coordinates [m]'' st1;
          st3 = set_ylabel (fst axs) ''y-coordinates [m]'' st2;
          st4 = title_set_text (snd axs) (Literal ''Microphone measurement $y(t)$'') st3;
          st5 = set_xlabel (snd axs) ''Time [s]'' st4;
          st6 = set_ylabel (snd axs) ''Amplitude'' st5;
          st7 = set_xlim (snd axs) (0, 0.1) st6
      in set_ylim (snd axs) (-0.05, 0.25) st7)"

text \<open>
  \<^verbatim>\<open>
  if init_rir.size > 0:
      t = np.arange(init_rir.size) / fs
      axs[1].plot(t, init_rir)
  (line,) = axs[1].plot([], [])
  \<close>
\<close>

definition plot_waveform :: "ref \<Rightarrow> real \<Rightarrow> real list \<Rightarrow> store \<Rightarrow> ref \<times> store" where
  "plot_waveform ax fs init_rir st =
     (let st1 = (if length init_rir > 0
                 then snd (plot ax (map (\<lambda>k. k / fs) (np_arange (int (length init_rir)))) init_rir st)
                 else st)
      in plot ax [] [] st1)"

definition plot_room ::
  "ref \<times> ref \<Rightarrow> wall list \<Rightarrow> point \<Rightarrow> sound_source \<Rightarrow> int \<Rightarrow> real \<Rightarrow> real list \<Rightarrow> store
     \<Rightarrow> (error + ref \<times> ref list) \<times> store" where
  "plot_room axs walls mic_pos im_sources max_order fs init_rir st =
     (let st1 = plot_walls_and_mic (fst axs) walls mic_pos st
      in case orders_loop (fst axs) im_sources (py_range (max_order + 1)) [] st1 of
           (Inl e, st2) \<Rightarrow> (Inl e, st2)
         | (Inr propagations, st2) \<Rightarrow>
             (let st3 = set_labels axs st2;
                  (line, st4) = plot_waveform (snd axs) fs init_rir st3
              in (Inr (line, propagations), st4)))"

text \<open>The defaults of the signature: \<^verbatim>\<open>fs=1, init_rir=np.array([])\<close>.\<close>

definition plot_room_defaults ::
  "ref \<times> ref \<Rightarrow> wall list \<Rightarrow> point \<Rightarrow> sound_source \<Rightarrow> int \<Rightarrow> store
     \<Rightarrow> (error + ref \<times> ref list) \<times> store" where
  "plot_room_defaults axs walls mic_pos im_sources max_order =
     plot_room axs walls mic_pos im_sources max_order 1 []"

section \<open>create_animation\<close>

text \<open>
  The fields of a \<^verbatim>\<open>pyroomacoustics\<close> room that the script reads:
  \<^verbatim>\<open>room.walls\<close>, the rows of \<^verbatim>\<open>room.mic_array.R.T\<close> (one position per microphone),
  \<^verbatim>\<open>room.sources\<close>, \<^verbatim>\<open>room.max_order\<close> and \<^verbatim>\<open>room.fs\<close>.
\<close>

record room =
  room_walls :: "wall list"
  mic_positions :: "point list"
  room_sources :: "sound_source list"
  room_max_order :: int
  room_fs :: real

record figure =
  fig_axes :: "ref \<times> ref"
  figsize :: "real \<times> real"
  height_ratios :: "real list"
  tight :: bool

text \<open>
  A rendered frame shows, for each of the two axes of the figure, the axes with the
  circles and the lines it holds, as they are in the store at the time of rendering.
\<close>

type_synonym panel = "axes \<times> circle list \<times> line2d list"
type_synonym picture = "panel \<times> panel"

record video =
  writer :: string
  fps :: nat
  frames :: "picture list"

text \<open>
  The state outside the function: the plotting objects, the figures \<^verbatim>\<open>pyplot\<close> holds
  open (the current one last), and the files written. The module-level bindings are a
  separate argument: a name is bound to a list of numbers, or not bound.
\<close>

record world =
  objects :: store
  figures :: "figure list"
  files :: "string \<rightharpoonup> video"

type_synonym globals = "string \<rightharpoonup> real list"

definition default_axes :: axes where
  "default_axes = \<lparr>aspect = ''auto'', collections = [], scatters = [], patches = [], lines = [],
     title = Literal [], xlabel = [], ylabel = [], xlim = None, ylim = None, cycle_pos = 0\<rparr>"

definition new_axes :: "store \<Rightarrow> ref \<times> store" where
  "new_axes st = (fresh st, st\<lparr>axes_of := (axes_of st)(fresh st := default_axes), fresh := Suc (fresh st)\<rparr>)"

text \<open>\<^verbatim>\<open>plt.subplots(2, figsize=(6, 6), height_ratios=[3, 1])\<close>: a new current figure with two axes.\<close>

definition subplots :: "world \<Rightarrow> (ref \<times> ref) \<times> world" where
  "subplots w =
     (let (ax_a, st1) = new_axes (objects w);
          (ax_b, st2) = new_axes st1
      in ((ax_a, ax_b),
          w\<lparr>objects := st2,
            figures := figures w @ [\<lparr>fig_axes = (ax_a, ax_b), figsize = (6, 6),
                                     height_ratios = [3, 1], tight = False\<rparr>]\<rparr>))"

text \<open>\<^verbatim>\<open>plt.tight_layout()\<close> and \<^verbatim>\<open>plt.close()\<close> act on the current figure.\<close>

definition tight_layout :: "world \<Rightarrow> world" where
  "tight_layout w =
     w\<lparr>figures := (case figures w of [] \<Rightarrow> []
                    | _ # _ \<Rightarrow> butlast (figures w) @ [(last (figures w))\<lparr>tight := True\<rparr>])\<rparr>"

definition close :: "world \<Rightarrow> world" where
  "close w = w\<lparr>figures := butlast (figures w)\<rparr>"

text \<open>\<^verbatim>\<open>xs[i]\<close>: a negative index counts from the end, an index out of range raises.\<close>

definition py_index :: "'a list \<Rightarrow> int \<Rightarrow> error + 'a" where
  "py_index xs i =
     (if 0 \<le> i \<and> i < int (length xs) then Inr (xs ! nat i)
      else if i < 0 \<and> - int (length xs) \<le> i then Inr (xs ! nat (int (length xs) + i))
      else Inl IndexError)"

text \<open>\<^verbatim>\<open>int(x)\<close> of a float truncates towards zero.\<close>

definition py_int :: "real \<Rightarrow> int" where
  "py_int x = (if 0 \<le> x then \<lfloor>x\<rfloor> else \<lceil>x\<rceil>)"

definition panel :: "store \<Rightarrow> ref \<Rightarrow> panel" where
  "panel st a = (axes_of st a, map (circle_of st) (patches (axes_of st a)),
                 map (line_of st) (lines (axes_of st a)))"

definition render :: "store \<Rightarrow> ref \<times> ref \<Rightarrow> picture" where
  "render st axs = (panel st (fst axs), panel st (snd axs))"

text \<open>
  Drawing a figure draws every line of its axes. A line whose x data and y data have
  lengths that NumPy cannot broadcast to one shape (different, and neither of them 1)
  makes the plotting library raise \<^verbatim>\<open>ValueError\<close>; \<^verbatim>\<open>set_data\<close> itself accepts such data.
\<close>

definition broadcastable :: "nat \<Rightarrow> nat \<Rightarrow> bool" where
  "broadcastable m n \<longleftrightarrow> m = n \<or> m = 1 \<or> n = 1"

definition line_drawable :: "line2d \<Rightarrow> bool" where
  "line_drawable l \<longleftrightarrow> broadcastable (length (xdata l)) (length (ydata l))"

definition drawable :: "store \<Rightarrow> ref \<times> ref \<Rightarrow> bool" where
  "drawable st axs \<longleftrightarrow>
     list_all line_drawable (snd (snd (panel st (fst axs)))) \<and>
     list_all line_drawable (snd (snd (panel st (snd axs))))"

definition draw :: "store \<Rightarrow> ref \<times> ref \<Rightarrow> error + picture" where
  "draw st axs = (if drawable st axs then Inr (render st axs) else Inl ValueError)"

text \<open>
  The frame loop of \<^verbatim>\<open>anim.save\<close> for a
  \<^verbatim>\<open>FuncAnimation(fig, animate, frames=N, fargs=...)\<close>: for each frame number of
  \<^verbatim>\<open>range(N)\<close> it calls \<^verbatim>\<open>animate(frame_num, *fargs)\<close>, draws the figure and hands the
  drawn frame to the writer. An exception of \<^verbatim>\<open>animate\<close> or of the drawing ends the loop;
  the frames grabbed until then stay with the writer. The result is the outcome of the
  loop, the frames grabbed and the store. Before the loop the library draws the first
  frame once more (\<^verbatim>\<open>animate(0, *fargs)\<close> when \<open>N > 0\<close>); the call is left out, since a
  second call of \<^verbatim>\<open>animate\<close> overwrites all that a first one wrote (lemma
  \<open>animate_absorb\<close> below).
\<close>

fun save_frames ::
  "ref \<times> ref \<Rightarrow> ref \<Rightarrow> ref \<Rightarrow> ref list \<Rightarrow> real list \<Rightarrow> real \<Rightarrow> int list \<Rightarrow> picture list \<Rightarrow> store
     \<Rightarrow> (error + unit) \<times> picture list \<times> store" where
  "save_frames fig ax line propagations rir fs [] grabbed st = (Inr (), grabbed, st)"
| "save_frames fig ax line propagations rir fs (frame_num # rest) grabbed st =
     (case animate frame_num ax line propagations rir fs st of
        (Inl e, st') \<Rightarrow> (Inl e, grabbed, st')
      | (Inr u, st') \<Rightarrow>
          (case draw st' fig of
             Inl e \<Rightarrow> (Inl e, grabbed, st')
           | Inr drawn \<Rightarrow>
               save_frames fig ax line propagations rir fs rest (grabbed @ [drawn]) st'))"

text \<open>The frame numbers of the animation: \<^verbatim>\<open>frames=int(0.1 * room.fs)\<close>.\<close>

definition anim_frames :: "room \<Rightarrow> int list" where
  "anim_frames room = py_range (py_int (0.1 * room_fs room))"

text \<open>
  \<^verbatim>\<open>
  ax_a.set_xlim([0, room_dim[0]])
  ax_a.set_ylim([0, room_dim[1]])
  \<close>
  \<^verbatim>\<open>room_dim\<close> is no parameter and no local of \<^verbatim>\<open>create_animation\<close>: each of the two
  lines looks the name up among the module-level bindings.
\<close>

definition restrict_view :: "globals \<Rightarrow> ref \<Rightarrow> store \<Rightarrow> (error + unit) \<times> store" where
  "restrict_view g ax_a st =
     (case g ''room_dim'' of
        None \<Rightarrow> (Inl NameError, st)
      | Some room_dim \<Rightarrow>
          (case py_index room_dim 0 of
             Inl e \<Rightarrow> (Inl e, st)
           | Inr w \<Rightarrow>
               (let st1 = set_xlim ax_a (0, w) st
                in case py_index room_dim 1 of
                     Inl e \<Rightarrow> (Inl e, st1)
                   | Inr h \<Rightarrow> (Inr (), set_ylim ax_a (0, h) st1))))"

text \<open>
  \<^verbatim>\<open>
  anim = animation.FuncAnimation(fig, animate, frames=int(0.1 * room.fs), interval=25,
                                 blit=False, fargs=(ax_a, line, propagations, rir, room.fs))
  writer = animation.FFMpegFileWriter(fps=60)
  anim.save(f"{filename}.mp4", writer=writer)
  plt.close()
  \<close>
  What the animation library does with these calls:
  \<^item> a negative frame count makes it raise \<^verbatim>\<open>ValueError\<close> before a frame is made;
  \<^item> the writer is finished when the frame loop ends, also when it ends with an
    exception: the external encoder assembles the frames grabbed into the file; with no
    frame it fails, \<^verbatim>\<open>CalledProcessError\<close> is raised and no file is written;
  \<^item> \<^verbatim>\<open>plt.close()\<close> is reached only when \<^verbatim>\<open>anim.save\<close> returns.
\<close>

definition export :: "ref \<times> ref \<Rightarrow> ref \<Rightarrow> ref list \<Rightarrow> room \<Rightarrow> real list \<Rightarrow> string \<Rightarrow> world
     \<Rightarrow> (error + unit) \<times> world" where
  "export axs line propagations room rir filename w =
     (if py_int (0.1 * room_fs room) < 0 then (Inl ValueError, w)
      else
        (case save_frames axs (fst axs) line propagations rir (room_fs room) (anim_frames room) []
                (objects w) of
           (outcome, grabbed, st) \<Rightarrow>
             (if grabbed = [] then (Inl CalledProcessError, w\<lparr>objects := st\<rparr>)
              else
                (let w' = w\<lparr>objects := st,
                             files := (files w)(filename @ ''.mp4'' \<mapsto>
                               \<lparr>writer = ''FFMpegFileWriter'', fps = 60, frames = grabbed\<rparr>)\<rparr>
                 in case outcome of
                      Inl e \<Rightarrow> (Inl e, w')
                    | Inr u \<Rightarrow> (Inr (), close w')))))"

text \<open>
  The first two statements of \<^verbatim>\<open>create_animation\<close>:
  \<^verbatim>\<open>
  fig, (ax_a, ax_b) = plt.subplots(2, figsize=(6, 6), height_ratios=[3, 1])
  line, propagations = plot_room(
      [ax_a, ax_b], room.walls, room.mic_array.R.T[src_recv_idx[0]],
      room.sources[src_recv_idx[1]], room.max_order, fs=room.fs, init_rir=init_rir)
  \<close>
  The arguments of the call are evaluated first; either index may be out of range.
\<close>

definition open_and_plot ::
  "room \<Rightarrow> int \<times> int \<Rightarrow> real list \<Rightarrow> world
     \<Rightarrow> (error + (ref \<times> ref) \<times> ref \<times> ref list) \<times> world" where
  "open_and_plot room src_recv_idx init_rir w =
     (let (axs, w1) = subplots w
      in case py_index (mic_positions room) (fst src_recv_idx) of
           Inl e \<Rightarrow> (Inl e, w1)
         | Inr mic_pos \<Rightarrow>
         (case py_index (room_sources room) (snd src_recv_idx) of
           Inl e \<Rightarrow> (Inl e, w1)
         | Inr im_sources \<Rightarrow>
         (case plot_room axs (room_walls room) mic_pos im_sources (room_max_order room)
                 (room_fs room) init_rir (objects w1) of
           (Inl e, st) \<Rightarrow> (Inl e, w1\<lparr>objects := st\<rparr>)
         | (Inr (line, propagations), st) \<Rightarrow>
             (Inr (axs, line, propagations), w1\<lparr>objects := st\<rparr>))))"

definition create_animation ::
  "globals \<Rightarrow> room \<Rightarrow> real list \<Rightarrow> int \<times> int \<Rightarrow> real list \<Rightarrow> string \<Rightarrow> world
     \<Rightarrow> (error + unit) \<times> world" where
  "create_animation g room rir src_recv_idx init_rir filename w =
     (case open_and_plot room src_recv_idx init_rir w of
        (Inl e, w1) \<Rightarrow> (Inl e, w1)
      | (Inr (axs, line, propagations), w1) \<Rightarrow>
          (case restrict_view g (fst axs) (objects w1) of
             (Inl e, st) \<Rightarrow> (Inl e, w1\<lparr>objects := st\<rparr>)
           | (Inr u, st) \<Rightarrow>
               export axs line propagations room rir filename
                 (tight_layout (w1\<lparr>objects := st\<rparr>))))"

text \<open>The defaults of the signature: \<^verbatim>\<open>src_recv_idx=(0, 0), init_rir=np.array([]), filename="ism_anim"\<close>.\<close>

definition create_animation_defaults :: "globals \<Rightarrow> room \<Rightarrow> real list \<Rightarrow> world \<Rightarrow> (error + unit) \<times> world" where
  "create_animation_defaults g room rir = create_animation g room rir (0, 0) [] ''ism_anim''"

section \<open>Statements on their own, and example inputs\<close>

text \<open>
  The two statements of the loop body of \<^verbatim>\<open>animate\<close> that do not mention the circle,
  executed once: \<^verbatim>\<open>line.set_data(...)\<close> and \<^verbatim>\<open>ax.title.set_text(...)\<close>.
\<close>

definition reveal_once :: "int \<Rightarrow> ref \<Rightarrow> ref \<Rightarrow> real list \<Rightarrow> real \<Rightarrow> store \<Rightarrow> store" where
  "reveal_once frame_num ax line rir fs st =
     title_set_text ax (animate_title (real_of_int frame_num / fs))
       (set_data line (map (\<lambda>k. k / fs) (np_arange frame_num)) (slice_to rir frame_num) st)"

text \<open>
  Whether the figure can be drawn after \<^verbatim>\<open>animate\<close> for a frame number, from a given store.
\<close>

definition frame_drawable ::
  "ref \<times> ref \<Rightarrow> ref \<Rightarrow> ref list \<Rightarrow> real list \<Rightarrow> real \<Rightarrow> store \<Rightarrow> int \<Rightarrow> bool" where
  "frame_drawable axs line propagations rir fs st n \<longleftrightarrow>
     drawable (snd (animate n (fst axs) line propagations rir fs st)) axs"

text \<open>
  What holds of the store once \<^verbatim>\<open>plot_room\<close> has drawn into the two axes of a new figure:
  the first axes holds the circles and no line, the second axes holds no circle and
  the lines, of which the last is the still empty line that \<^verbatim>\<open>plot_room\<close> returns and the
  others can be drawn.
\<close>

definition static_plot :: "store \<Rightarrow> ref \<times> ref \<Rightarrow> ref \<Rightarrow> ref list \<Rightarrow> bool" where
  "static_plot st axs line propagations \<longleftrightarrow>
     fst axs \<noteq> snd axs \<and>
     patches (axes_of st (fst axs)) = propagations \<and>
     lines (axes_of st (fst axs)) = [] \<and>
     patches (axes_of st (snd axs)) = [] \<and>
     lines (axes_of st (snd axs)) \<noteq> [] \<and>
     last (lines (axes_of st (snd axs))) = line \<and>
     line \<notin> set (butlast (lines (axes_of st (snd axs)))) \<and>
     list_all line_drawable (map (line_of st) (butlast (lines (axes_of st (snd axs))))) \<and>
     line_of st line = \<lparr>xdata = [], ydata = []\<rparr>"

text \<open>
  A small instance of the script's own set-up: the 10 m by 6 m shoebox room with its two
  microphones and two sources, a few image sources of each, and a low sampling rate so
  that the animation has three frames.
\<close>

definition demo_source_1 :: sound_source where
  "demo_source_1 = \<lparr>images = [(2, 4), (-2, 4), (18, 4), (2, -4), (2, 8), (-2, -4)],
                     orders = [0, 1, 1, 1, 1, 2]\<rparr>"

definition demo_source_2 :: sound_source where
  "demo_source_2 = \<lparr>images = [(8, 1), (-8, 1), (12, 1)], orders = [0, 1, 1]\<rparr>"

definition demo_room :: room where
  "demo_room = \<lparr>room_walls = [((0, 0), (10, 0)), ((10, 0), (10, 6)), ((10, 6), (0, 6)), ((0, 6), (0, 0))],
     mic_positions = [(6.316, 3.754), (4.123, 3.312)],
     room_sources = [demo_source_1, demo_source_2],
     room_max_order = 1,
     room_fs = 30\<rparr>"

definition demo_rir :: "real list" where
  "demo_rir = [0, 0.2, 0, 0.1, 0.05]"

text \<open>
  The same room at a rate that gives five frames, a response of two samples, and the
  room at a rate below ten, which gives no frame.
\<close>

definition five_frame_room :: room where
  "five_frame_room = demo_room\<lparr>room_fs := 50\<rparr>"

definition short_rir :: "real list" where
  "short_rir = [0.2, 0.1]"

definition no_frame_room :: room where
  "no_frame_room = demo_room\<lparr>room_fs := 9\<rparr>"

definition demo_globals :: globals where
  "demo_globals = [''room_dim'' \<mapsto> [10, 6]]"

definition other_globals :: globals where
  "other_globals = [''room_dim'' \<mapsto> [5, 3]]"

definition no_globals :: globals where
  "no_globals = (\<lambda>name. None)"

definition empty_store :: store where
  "empty_store = \<lparr>axes_of = (\<lambda>r. default_axes),
     circle_of = (\<lambda>r. \<lparr>center = (0, 0), radius = 0, fill = True, linewidth = 1,
                         edgecolor = Named ''k'', alpha = None\<rparr>),
     line_of = (\<lambda>r. \<lparr>xdata = [], ydata = []\<rparr>),
     fresh = 0\<rparr>"

definition empty_world :: world where
  "empty_world = \<lparr>objects = empty_store, figures = [], files = Map.empty\<rparr>"

section \<open>The effect of animate\<close>

lemma animate_body_circle:
  "circle_of (animate_body n ax l rir fs t p st) q =
     (if q = p then (circle_of st p)\<lparr>radius := t * 343, alpha := Some (1 - t * 10)\<rparr>
      else circle_of st q)"
  by (simp add: animate_body_def set_radius_def assign_alpha_def set_data_def title_set_text_def)

lemma animate_body_line:
  "line_of (animate_body n ax l rir fs t p st) =
     (line_of st)(l := \<lparr>xdata = map (\<lambda>k. k / fs) (np_arange n), ydata = slice_to rir n\<rparr>)"
  by (simp add: animate_body_def set_radius_def assign_alpha_def set_data_def title_set_text_def)

lemma animate_body_axes:
  "axes_of (animate_body n ax l rir fs t p st) =
     (axes_of st)(ax := (axes_of st ax)\<lparr>title := animate_title t\<rparr>)"
  by (simp add: animate_body_def set_radius_def assign_alpha_def set_data_def title_set_text_def)

lemma animate_body_fresh: "fresh (animate_body n ax l rir fs t p st) = fresh st"
  by (simp add: animate_body_def set_radius_def assign_alpha_def set_data_def title_set_text_def)

text \<open>The loop, field by field of the store.\<close>

lemma animate_loop_circle:
  "circle_of (animate_loop n ax l rir fs t ps st) q =
     (if q \<in> set ps then (circle_of st q)\<lparr>radius := t * 343, alpha := Some (1 - t * 10)\<rparr>
      else circle_of st q)"
  by (induction ps arbitrary: st) (simp_all add: animate_body_circle)

lemma animate_loop_line:
  "line_of (animate_loop n ax l rir fs t ps st) =
     (if ps = [] then line_of st
      else (line_of st)(l := \<lparr>xdata = map (\<lambda>k. k / fs) (np_arange n), ydata = slice_to rir n\<rparr>))"
  by (induction ps arbitrary: st) (simp_all add: animate_body_line)

lemma animate_loop_axes:
  "axes_of (animate_loop n ax l rir fs t ps st) =
     (if ps = [] then axes_of st
      else (axes_of st)(ax := (axes_of st ax)\<lparr>title := animate_title t\<rparr>))"
  by (induction ps arbitrary: st) (simp_all add: animate_body_axes)

lemma animate_loop_fresh: "fresh (animate_loop n ax l rir fs t ps st) = fresh st"
  by (induction ps arbitrary: st) (simp_all add: animate_body_fresh)

lemma np_arange_length: "length (np_arange n) = nat n"
  by (simp add: np_arange_def)

lemma py_range_mem: "n \<in> set (py_range m) \<longleftrightarrow> 0 \<le> n \<and> n < m"
proof
  assume "n \<in> set (py_range m)"
  then obtain k where "k < nat m" and "n = int k"
    by (auto simp: py_range_def)
  then show "0 \<le> n \<and> n < m" by simp
next
  assume "0 \<le> n \<and> n < m"
  then have "nat n < nat m" and "n = int (nat n)" by simp_all
  then show "n \<in> set (py_range m)"
    unfolding py_range_def by (metis atLeast0LessThan image_eqI lessThan_iff set_map set_upt)
qed

lemma anim_frames_mem:
  "n \<in> set (anim_frames room) \<longleftrightarrow> 0 \<le> n \<and> n < py_int (0.1 * room_fs room)"
  by (simp add: anim_frames_def py_range_mem)

lemma frame_time_bound:
  assumes "0 < fs" and "0 \<le> n" and "n < py_int (0.1 * fs)"
  shows "10 * (real_of_int n / fs) < 1"
proof -
  from assms have "n < \<lfloor>0.1 * fs\<rfloor>" by (simp add: py_int_def)
  then have "real_of_int n < 0.1 * fs" by linarith
  with assms(1) show ?thesis by (simp add: field_simps)
qed

text \<open>
  Claim C1. For a frame number \<open>frame_num \<ge> 0\<close> and a sampling rate \<open>fs > 0\<close>, a call of
  \<^verbatim>\<open>animate\<close> returns normally and leaves every circle of \<^verbatim>\<open>propagations\<close> with the
  radius \<open>(frame_num / fs) * 343\<close>: the distance sound travels in the frame's time.
\<close>

theorem animate_sets_radius:
  assumes "0 \<le> frame_num" and "0 < fs"
  shows "fst (animate frame_num ax line propagations rir fs st) = Inr () \<and>
         (\<forall>p \<in> set propagations.
            radius (circle_of (snd (animate frame_num ax line propagations rir fs st)) p)
              = (real_of_int frame_num / fs) * 343.0)"
  using assms by (simp add: animate_def animate_loop_circle)

theorem animate_sets_radius_witness:
  "(0::int) \<le> 3 \<and> (0::real) < 8000 \<and>
   fst (animate 3 0 0 [0, 1] demo_rir 8000 empty_store) = Inr () \<and>
   radius (circle_of (snd (animate 3 0 0 [0, 1] demo_rir 8000 empty_store)) 0) = 1029 / 8000 \<and>
   radius (circle_of (snd (animate 3 0 0 [0, 1] demo_rir 8000 empty_store)) 1) = 1029 / 8000"
  using animate_sets_radius [of 3 8000 0 0 "[0, 1]" demo_rir empty_store] by simp

text \<open>
  Claim C2, as amended. For a sampling rate \<open>fs > 0\<close>, a non-empty list of circles and a
  frame number \<open>n\<close> with \<open>0 \<le> n \<le> len(rir)\<close>, a call of \<^verbatim>\<open>animate\<close> returns normally and
  leaves the line with exactly the first \<open>n\<close> samples of \<^verbatim>\<open>rir\<close> against the times
  \<open>k / fs\<close> for \<open>0 \<le> k < n\<close>, and every circle with the radius \<open>343 * (n / fs)\<close>: the
  speed of sound times the time extent \<open>n / fs\<close> of the samples revealed.
\<close>

theorem animate_reveal_in_sync:
  assumes "0 < fs" and "propagations \<noteq> []" and "0 \<le> n" and "n \<le> int (length rir)"
  shows "fst (animate n ax line propagations rir fs st) = Inr () \<and>
         xdata (line_of (snd (animate n ax line propagations rir fs st)) line)
           = map (\<lambda>k. real k / fs) [0..<nat n] \<and>
         ydata (line_of (snd (animate n ax line propagations rir fs st)) line) = take (nat n) rir \<and>
         length (xdata (line_of (snd (animate n ax line propagations rir fs st)) line)) = nat n \<and>
         length (ydata (line_of (snd (animate n ax line propagations rir fs st)) line)) = nat n \<and>
         (\<forall>p \<in> set propagations.
            radius (circle_of (snd (animate n ax line propagations rir fs st)) p)
              = 343.0 * (real_of_int n / fs) \<and>
            radius (circle_of (snd (animate n ax line propagations rir fs st)) p)
              = 343.0 * (real (length (ydata (line_of
                     (snd (animate n ax line propagations rir fs st)) line))) / fs))"
  using assms
  by (simp add: animate_def animate_loop_circle animate_loop_line np_arange_def slice_to_def)

theorem animate_reveal_in_sync_witness:
  "(0::real) < 30 \<and> [0::ref] \<noteq> [] \<and> (0::int) \<le> 2 \<and> (2::int) \<le> int (length demo_rir) \<and>
   fst (animate 2 0 0 [0] demo_rir 30 empty_store) = Inr () \<and>
   xdata (line_of (snd (animate 2 0 0 [0] demo_rir 30 empty_store)) 0) = [0, 1 / 30] \<and>
   ydata (line_of (snd (animate 2 0 0 [0] demo_rir 30 empty_store)) 0) = [0, 0.2] \<and>
   radius (circle_of (snd (animate 2 0 0 [0] demo_rir 30 empty_store)) 0) = 343 / 15"
proof -
  have "[0..<2] = [0, Suc 0]" by code_simp
  with animate_reveal_in_sync [where fs = 30 and propagations = "[0]" and n = 2 and ax = 0
      and line = 0 and rir = demo_rir and st = empty_store]
  show ?thesis by (simp add: demo_rir_def)
qed

text \<open>
  Claim C2 as stated, for every frame number, does not hold. The response here has five
  samples. At frame 7 the line gets seven time points and the five samples there are,
  and the radius is \<open>343 * (7 / 30)\<close> while the samples revealed extend over \<open>5 / 30\<close>
  seconds. At frame \<open>-2\<close> the slice \<^verbatim>\<open>rir[:-2]\<close> holds three samples, there is no time
  point, and the radius is negative.
\<close>

theorem animate_reveal_out_of_range:
  "length demo_rir = 5 \<and>
   fst (animate 7 0 0 [0] demo_rir 30 empty_store) = Inr () \<and>
   length (xdata (line_of (snd (animate 7 0 0 [0] demo_rir 30 empty_store)) 0)) = 7 \<and>
   ydata (line_of (snd (animate 7 0 0 [0] demo_rir 30 empty_store)) 0) = [0, 0.2, 0, 0.1, 0.05] \<and>
   radius (circle_of (snd (animate 7 0 0 [0] demo_rir 30 empty_store)) 0) = 343 * (7 / 30) \<and>
   fst (animate (- 2) 0 0 [0] demo_rir 30 empty_store) = Inr () \<and>
   xdata (line_of (snd (animate (- 2) 0 0 [0] demo_rir 30 empty_store)) 0) = [] \<and>
   ydata (line_of (snd (animate (- 2) 0 0 [0] demo_rir 30 empty_store)) 0) = [0, 0.2, 0] \<and>
   radius (circle_of (snd (animate (- 2) 0 0 [0] demo_rir 30 empty_store)) 0) = - (343 / 15)"
  by (simp add: animate_def animate_loop_circle animate_loop_line np_arange_def slice_to_def
      demo_rir_def empty_store_def del: animate_loop.simps)

text \<open>
  Claim C8. For every frame number \<open>n\<close> that \<^verbatim>\<open>create_animation\<close> drives
  (\<open>0 \<le> n < int(0.1 * fs)\<close>), the value \<^verbatim>\<open>animate\<close> assigns to the attribute \<^verbatim>\<open>alpha\<close>
  of each circle is \<open>1 - 10 * (n / fs)\<close>; it lies in the interval \<open>(0, 1]\<close>, it is \<open>1\<close>
  at frame \<open>0\<close>, and it is strictly smaller than at every earlier frame. The arithmetic
  is exact arithmetic on reals.
\<close>

theorem frame_alpha_in_unit_interval:
  assumes "n \<in> set (anim_frames room)" and "p \<in> set propagations"
  shows "alpha (circle_of (snd (animate n ax line propagations rir (room_fs room) st)) p)
           = Some (1 - 10 * (real_of_int n / room_fs room)) \<and>
         0 < 1 - 10 * (real_of_int n / room_fs room) \<and>
         1 - 10 * (real_of_int n / room_fs room) \<le> 1 \<and>
         alpha (circle_of (snd (animate 0 ax line propagations rir (room_fs room) st)) p) = Some 1 \<and>
         (\<forall>m \<in> set (anim_frames room). m < n \<longrightarrow>
            1 - 10 * (real_of_int n / room_fs room) < 1 - 10 * (real_of_int m / room_fs room))"
proof -
  from assms(1) have n: "0 \<le> n" "n < py_int (0.1 * room_fs room)"
    by (simp_all add: anim_frames_mem)
  have fs: "0 < room_fs room"
  proof (rule ccontr)
    assume "\<not> 0 < room_fs room"
    then have "py_int (0.1 * room_fs room) \<le> 0"
      by (simp add: py_int_def ceiling_le_iff mult_le_0_iff)
    with n show False by simp
  qed
  have a: "alpha (circle_of (snd (animate k ax line propagations rir (room_fs room) st)) p)
             = Some (1 - 10 * (real_of_int k / room_fs room))" for k
    using fs assms(2) by (simp add: animate_def animate_loop_circle)
  have lo: "0 < 1 - 10 * (real_of_int n / room_fs room)"
    using frame_time_bound [OF fs n] by simp
  have hi: "1 - 10 * (real_of_int n / room_fs room) \<le> 1"
    using fs n(1) by simp
  have dec: "1 - 10 * (real_of_int n / room_fs room) < 1 - 10 * (real_of_int m / room_fs room)"
    if "m < n" for m
    using fs that by (simp add: divide_strict_right_mono)
  from a [of n] a [of 0] lo hi dec show ?thesis by simp
qed

theorem frame_alpha_in_unit_interval_witness:
  "2 \<in> set (anim_frames demo_room) \<and> (0::ref) \<in> set [0, 1] \<and>
   alpha (circle_of (snd (animate 2 0 0 [0, 1] demo_rir (room_fs demo_room) empty_store)) 0) = Some (1 / 3) \<and>
   alpha (circle_of (snd (animate 0 0 0 [0, 1] demo_rir (room_fs demo_room) empty_store)) 0) = Some 1 \<and>
   (0::real) < 1 / 3 \<and> (1::real) / 3 < 2 / 3"
proof -
  have m: "2 \<in> set (anim_frames demo_room)" "1 \<in> set (anim_frames demo_room)"
    by (simp_all add: anim_frames_mem demo_room_def py_int_def)
  have fs: "room_fs demo_room = 30" by (simp add: demo_room_def)
  from frame_alpha_in_unit_interval [of 2 demo_room 0 "[0, 1]" 0 0 demo_rir empty_store] m fs
  show ?thesis by simp
qed

text \<open>
  Claim C10. In one call of \<^verbatim>\<open>animate\<close> the line update and the title update run once
  for each circle, every time with the same arguments: whatever the circle and the
  store, one pass through the loop body leaves the line data and the titles as the two
  statements alone would. So with at least one circle the line data and the titles end
  as after running the two statements once, and with no circle the call changes nothing:
  no waveform is revealed.
\<close>

theorem animate_line_title_once:
  assumes "fs \<noteq> 0"
  shows "(\<forall>p s. line_of (animate_body n ax line rir fs (real_of_int n / fs) p s)
                  = line_of (reveal_once n ax line rir fs s) \<and>
                axes_of (animate_body n ax line rir fs (real_of_int n / fs) p s)
                  = axes_of (reveal_once n ax line rir fs s)) \<and>
         (propagations \<noteq> [] \<longrightarrow>
            line_of (snd (animate n ax line propagations rir fs st))
              = line_of (reveal_once n ax line rir fs st) \<and>
            axes_of (snd (animate n ax line propagations rir fs st))
              = axes_of (reveal_once n ax line rir fs st)) \<and>
         (propagations = [] \<longrightarrow> snd (animate n ax line propagations rir fs st) = st)"
  using assms
  by (simp add: animate_def animate_loop_line animate_loop_axes animate_body_line animate_body_axes
      reveal_once_def set_data_def title_set_text_def)

theorem animate_line_title_once_witness:
  "(30::real) \<noteq> 0 \<and>
   line_of (snd (animate 2 0 0 [0, 1] demo_rir 30 empty_store))
     = line_of (reveal_once 2 0 0 demo_rir 30 empty_store) \<and>
   axes_of (snd (animate 2 0 0 [0, 1] demo_rir 30 empty_store))
     = axes_of (reveal_once 2 0 0 demo_rir 30 empty_store) \<and>
   snd (animate 2 0 0 [] demo_rir 30 empty_store) = empty_store"
  using animate_line_title_once [where fs = 30 and propagations = "[0, 1]" and n = 2 and ax = 0
      and line = 0 and rir = demo_rir and st = empty_store]
    animate_line_title_once [where fs = 30 and propagations = "[]" and n = 2 and ax = 0
      and line = 0 and rir = demo_rir and st = empty_store]
  by simp

section \<open>The effect of plot_room\<close>

lemma upd_axes_fields [simp]:
  "circle_of (upd_axes a f st) = circle_of st"
  "line_of (upd_axes a f st) = line_of st"
  "fresh (upd_axes a f st) = fresh st"
  "axes_of (upd_axes a f st) = (axes_of st)(a := f (axes_of st a))"
  by (simp_all add: upd_axes_def)

lemma upt_from_Suc: "[i..<i + Suc n] = i # [Suc i..<Suc i + n]"
  using upt_conv_Cons [of i "i + Suc n"] by simp

lemma circles_loop_step:
  "circles_loop a col (pt # pts) props st =
     circles_loop a col pts (props @ [fresh st])
       (add_patch a (fresh st)
          (st\<lparr>circle_of := (circle_of st)(fresh st :=
                 \<lparr>center = pt, radius = 0, fill = False, linewidth = 2, edgecolor = col, alpha = None\<rparr>),
              fresh := Suc (fresh st)\<rparr>))"
  by (simp add: new_circle_def)

lemma circles_loop_fst:
  "fst (circles_loop a col pts props st) = props @ [fresh st..<fresh st + length pts]"
proof (induction pts arbitrary: props st)
  case Nil
  then show ?case by simp
next
  case (Cons pt pts)
  show ?case
    unfolding circles_loop_step Cons.IH
    using upt_from_Suc [of "fresh st" "length pts"] by (simp add: add_patch_def)
qed

lemma circles_loop_fresh:
  "fresh (snd (circles_loop a col pts props st)) = fresh st + length pts"
proof (induction pts arbitrary: props st)
  case Nil
  then show ?case by simp
next
  case (Cons pt pts)
  show ?case
    unfolding circles_loop_step Cons.IH
    by (simp add: add_patch_def)
qed

lemma circles_loop_line:
  "line_of (snd (circles_loop a col pts props st)) = line_of st"
proof (induction pts arbitrary: props st)
  case Nil
  then show ?case by simp
next
  case (Cons pt pts)
  show ?case
    unfolding circles_loop_step Cons.IH
    by (simp add: add_patch_def)
qed

lemma circles_loop_old:
  "r < fresh st \<Longrightarrow> circle_of (snd (circles_loop a col pts props st)) r = circle_of st r"
proof (induction pts arbitrary: props st)
  case Nil
  then show ?case by simp
next
  case (Cons pt pts)
  from Cons.prems show ?case
    unfolding circles_loop_step
    by (subst Cons.IH) (simp_all add: add_patch_def)
qed

lemma circles_loop_new:
  "map (circle_of (snd (circles_loop a col pts props st))) [fresh st..<fresh st + length pts] =
     map (\<lambda>pt. \<lparr>center = pt, radius = 0, fill = False, linewidth = 2, edgecolor = col, alpha = None\<rparr>) pts"
proof (induction pts arbitrary: props st)
  case Nil
  then show ?case by simp
next
  case (Cons pt pts)
  let ?st2 = "add_patch a (fresh st)
          (st\<lparr>circle_of := (circle_of st)(fresh st :=
                 \<lparr>center = pt, radius = 0, fill = False, linewidth = 2, edgecolor = col, alpha = None\<rparr>),
              fresh := Suc (fresh st)\<rparr>)"
  have f: "fresh ?st2 = Suc (fresh st)" by (simp add: add_patch_def)
  have "circle_of (snd (circles_loop a col pts (props @ [fresh st]) ?st2)) (fresh st)
          = circle_of ?st2 (fresh st)"
    by (rule circles_loop_old) (simp add: f)
  moreover have "map (circle_of (snd (circles_loop a col pts (props @ [fresh st]) ?st2)))
          [Suc (fresh st)..<Suc (fresh st) + length pts]
        = map (\<lambda>pt. \<lparr>center = pt, radius = 0, fill = False, linewidth = 2, edgecolor = col, alpha = None\<rparr>) pts"
    using Cons.IH [of "props @ [fresh st]" ?st2] by (simp add: f)
  ultimately show ?case
    unfolding circles_loop_step
    using upt_from_Suc [of "fresh st" "length pts"] by (simp add: add_patch_def)
qed

lemma circles_loop_axes:
  "axes_of (snd (circles_loop a col pts props st)) =
     (axes_of st)(a := (axes_of st a)\<lparr>patches := patches (axes_of st a) @ [fresh st..<fresh st + length pts]\<rparr>)"
proof (induction pts arbitrary: props st)
  case Nil
  then show ?case by simp
next
  case (Cons pt pts)
  show ?case
    unfolding circles_loop_step Cons.IH
    using upt_from_Suc [of "fresh st" "length pts"] by (simp add: add_patch_def)
qed


lemma scatter_next_fields [simp]:
  "circle_of (snd (scatter_next a pts st)) = circle_of st"
  "line_of (snd (scatter_next a pts st)) = line_of st"
  "fresh (snd (scatter_next a pts st)) = fresh st"
  "patches (axes_of (snd (scatter_next a pts st)) b) = patches (axes_of st b)"
  "lines (axes_of (snd (scatter_next a pts st)) b) = lines (axes_of st b)"
  by (simp_all add: scatter_next_def Let_def)

lemma upt_split: "[i..<i + (m + n)] = [i..<i + m] @ [i + m..<i + m + n]"
  using upt_add_eq_append [of i "i + m" n] by (simp add: add.assoc)

lemma orders_loop_step:
  assumes "length (orders src) = length (images src)"
  shows "orders_loop a src (k # rest) props st =
     orders_loop a src rest
       (fst (circles_loop a (Cycle (cycle_pos (axes_of st a))) (images_of_order src k) props
              (snd (scatter_next a (images_of_order src k) st))))
       (snd (circles_loop a (Cycle (cycle_pos (axes_of st a))) (images_of_order src k) props
              (snd (scatter_next a (images_of_order src k) st))))"
  using assms by (simp add: Let_def split_beta scatter_next_def)

lemma orders_loop_mismatch:
  assumes "length (orders src) \<noteq> length (images src)"
  shows "orders_loop a src (k # rest) props st = (Inl IndexError, st)"
  using assms by simp

lemma orders_loop_fst:
  assumes "length (orders src) = length (images src)"
  shows "fst (orders_loop a src ks props st) =
     Inr (props @ [fresh st..<fresh st + length (concat (map (images_of_order src) ks))])"
proof (induction ks arbitrary: props st)
  case Nil
  then show ?case by simp
next
  case (Cons k ks)
  show ?case
    unfolding orders_loop_step [OF assms] Cons.IH
    by (simp add: circles_loop_fst circles_loop_fresh upt_split)
qed

lemma orders_loop_fresh:
  assumes "length (orders src) = length (images src)"
  shows "fresh (snd (orders_loop a src ks props st)) =
     fresh st + length (concat (map (images_of_order src) ks))"
proof (induction ks arbitrary: props st)
  case Nil
  then show ?case by simp
next
  case (Cons k ks)
  show ?case
    unfolding orders_loop_step [OF assms] Cons.IH
    by (simp add: circles_loop_fresh)
qed

lemma orders_loop_line:
  "line_of (snd (orders_loop a src ks props st)) = line_of st"
proof (induction ks arbitrary: props st)
  case Nil
  then show ?case by simp
next
  case (Cons k ks)
  show ?case
  proof (cases "length (orders src) = length (images src)")
    case True
    show ?thesis
      unfolding orders_loop_step [OF True] Cons.IH
      by (simp add: circles_loop_line)
  next
    case False
    then show ?thesis by simp
  qed
qed

lemma orders_loop_lines:
  "lines (axes_of (snd (orders_loop a src ks props st)) b) = lines (axes_of st b)"
proof (induction ks arbitrary: props st)
  case Nil
  then show ?case by simp
next
  case (Cons k ks)
  show ?case
  proof (cases "length (orders src) = length (images src)")
    case True
    show ?thesis
      unfolding orders_loop_step [OF True] Cons.IH
      by (simp add: circles_loop_axes)
  next
    case False
    then show ?thesis by simp
  qed
qed

lemma orders_loop_patches:
  assumes "length (orders src) = length (images src)"
  shows "patches (axes_of (snd (orders_loop a src ks props st)) a) =
     patches (axes_of st a) @ [fresh st..<fresh st + length (concat (map (images_of_order src) ks))]"
proof (induction ks arbitrary: props st)
  case Nil
  then show ?case by simp
next
  case (Cons k ks)
  show ?case
    unfolding orders_loop_step [OF assms] Cons.IH
    by (simp add: circles_loop_axes circles_loop_fresh upt_split)
qed

lemma orders_loop_old:
  "r < fresh st \<Longrightarrow> circle_of (snd (orders_loop a src ks props st)) r = circle_of st r"
proof (induction ks arbitrary: props st)
  case Nil
  then show ?case by simp
next
  case (Cons k ks)
  show ?case
  proof (cases "length (orders src) = length (images src)")
    case True
    from Cons.prems show ?thesis
      unfolding orders_loop_step [OF True]
      by (subst Cons.IH) (simp_all add: circles_loop_fresh circles_loop_old)
  next
    case False
    then show ?thesis by simp
  qed
qed

lemma orders_loop_new:
  assumes len: "length (orders src) = length (images src)"
    and g: "\<And>col pt. g \<lparr>center = pt, radius = 0, fill = False, linewidth = 2, edgecolor = col, alpha = None\<rparr> = h pt"
  shows "map (\<lambda>r. g (circle_of (snd (orders_loop a src ks props st)) r))
           [fresh st..<fresh st + length (concat (map (images_of_order src) ks))]
         = map h (concat (map (images_of_order src) ks))"
proof (induction ks arbitrary: props st)
  case Nil
  then show ?case by simp
next
  case (Cons k ks)
  let ?pts = "images_of_order src k"
  let ?st1 = "snd (scatter_next a ?pts st)"
  let ?col = "Cycle (cycle_pos (axes_of st a))"
  let ?props2 = "fst (circles_loop a ?col ?pts props ?st1)"
  let ?st2 = "snd (circles_loop a ?col ?pts props ?st1)"
  let ?st3 = "snd (orders_loop a src ks ?props2 ?st2)"
  let ?n = "length (concat (map (images_of_order src) ks))"
  have f2: "fresh ?st2 = fresh st + length ?pts"
    by (simp add: circles_loop_fresh)
  have "map (\<lambda>r. g (circle_of ?st3 r)) [fresh st..<fresh st + length ?pts]
          = map (\<lambda>r. g (circle_of ?st2 r)) [fresh st..<fresh st + length ?pts]"
    by (rule map_cong [OF refl]) (simp add: orders_loop_old f2)
  also have "\<dots> = map g (map (circle_of ?st2) [fresh ?st1..<fresh ?st1 + length ?pts])"
    by simp
  also have "\<dots> = map h ?pts"
    unfolding circles_loop_new by (simp add: g)
  finally have first: "map (\<lambda>r. g (circle_of ?st3 r)) [fresh st..<fresh st + length ?pts] = map h ?pts" .
  have second: "map (\<lambda>r. g (circle_of ?st3 r)) [fresh st + length ?pts..<fresh st + length ?pts + ?n]
          = map h (concat (map (images_of_order src) ks))"
    using Cons.IH [of ?props2 ?st2] by (simp add: f2)
  show ?case
    unfolding orders_loop_step [OF len]
    using first second by (simp add: upt_split)
qed


lemma orders_loop_ok:
  assumes "ks = [] \<or> length (orders src) = length (images src)"
  shows "fst (orders_loop a src ks props st) =
           Inr (props @ [fresh st..<fresh st + length (concat (map (images_of_order src) ks))])"
    and "fresh (snd (orders_loop a src ks props st)) =
           fresh st + length (concat (map (images_of_order src) ks))"
    and "patches (axes_of (snd (orders_loop a src ks props st)) a) =
           patches (axes_of st a) @ [fresh st..<fresh st + length (concat (map (images_of_order src) ks))]"
proof -
  show "fst (orders_loop a src ks props st) =
           Inr (props @ [fresh st..<fresh st + length (concat (map (images_of_order src) ks))])"
    using assms by (cases "ks = []") (simp_all add: orders_loop_fst)
  show "fresh (snd (orders_loop a src ks props st)) =
           fresh st + length (concat (map (images_of_order src) ks))"
    using assms by (cases "ks = []") (simp_all add: orders_loop_fresh)
  show "patches (axes_of (snd (orders_loop a src ks props st)) a) =
           patches (axes_of st a) @ [fresh st..<fresh st + length (concat (map (images_of_order src) ks))]"
    using assms by (cases "ks = []") (simp_all add: orders_loop_patches)
qed

lemma orders_loop_new_ok:
  assumes "ks = [] \<or> length (orders src) = length (images src)"
    and "\<And>col pt. g \<lparr>center = pt, radius = 0, fill = False, linewidth = 2, edgecolor = col, alpha = None\<rparr> = h pt"
  shows "map (\<lambda>r. g (circle_of (snd (orders_loop a src ks props st)) r))
           [fresh st..<fresh st + length (concat (map (images_of_order src) ks))]
         = map h (concat (map (images_of_order src) ks))"
proof (cases "ks = []")
  case True
  then show ?thesis by simp
next
  case False
  with assms(1) have "length (orders src) = length (images src)" by simp
  then show ?thesis using assms(2) by (rule orders_loop_new)
qed

lemma plot_walls_and_mic_fields [simp]:
  "circle_of (plot_walls_and_mic a walls mic_pos st) = circle_of st"
  "line_of (plot_walls_and_mic a walls mic_pos st) = line_of st"
  "fresh (plot_walls_and_mic a walls mic_pos st) = fresh st"
  "patches (axes_of (plot_walls_and_mic a walls mic_pos st) b) = patches (axes_of st b)"
  "lines (axes_of (plot_walls_and_mic a walls mic_pos st) b) = lines (axes_of st b)"
  by (simp_all add: plot_walls_and_mic_def set_aspect_def add_collection_def scatter_with_def)

lemma title_set_text_upd: "title_set_text a t = upd_axes a (\<lambda>x. x\<lparr>title := t\<rparr>)"
  by (rule ext) (simp add: title_set_text_def upd_axes_def)

lemma set_labels_fields [simp]:
  "circle_of (set_labels axs st) = circle_of st"
  "line_of (set_labels axs st) = line_of st"
  "fresh (set_labels axs st) = fresh st"
  "patches (axes_of (set_labels axs st) b) = patches (axes_of st b)"
  "lines (axes_of (set_labels axs st) b) = lines (axes_of st b)"
  by (simp_all add: set_labels_def title_set_text_upd set_xlabel_def set_ylabel_def set_xlim_def
      set_ylim_def)

lemma plot_waveform_fields:
  "fst (plot_waveform a fs init_rir st) = (if init_rir = [] then fresh st else Suc (fresh st))"
  "circle_of (snd (plot_waveform a fs init_rir st)) = circle_of st"
  "patches (axes_of (snd (plot_waveform a fs init_rir st)) b) = patches (axes_of st b)"
  "lines (axes_of (snd (plot_waveform a fs init_rir st)) a) =
     lines (axes_of st a) @ (if init_rir = [] then [fresh st] else [fresh st, Suc (fresh st)])"
  "map (line_of (snd (plot_waveform a fs init_rir st)))
       (if init_rir = [] then [fresh st] else [fresh st, Suc (fresh st)]) =
     (if init_rir = [] then [\<lparr>xdata = [], ydata = []\<rparr>]
      else [\<lparr>xdata = map (\<lambda>k. real k / fs) [0..<length init_rir], ydata = init_rir\<rparr>,
            \<lparr>xdata = [], ydata = []\<rparr>])"
  by (simp_all add: plot_waveform_def plot_def np_arange_def Let_def)

lemma plot_room_unfold:
  assumes "max_order < 0 \<or> length (orders src) = length (images src)"
  shows "plot_room axs walls mic_pos src max_order fs init_rir st =
     (Inr (fst (plot_waveform (snd axs) fs init_rir
                 (set_labels axs (snd (orders_loop (fst axs) src (py_range (max_order + 1)) []
                    (plot_walls_and_mic (fst axs) walls mic_pos st))))),
           [fresh st..<fresh st + length (concat (map (images_of_order src) (py_range (max_order + 1))))]),
      snd (plot_waveform (snd axs) fs init_rir
             (set_labels axs (snd (orders_loop (fst axs) src (py_range (max_order + 1)) []
                (plot_walls_and_mic (fst axs) walls mic_pos st))))))"
proof -
  let ?st1 = "plot_walls_and_mic (fst axs) walls mic_pos st"
  let ?ks = "py_range (max_order + 1)"
  from assms have ok: "?ks = [] \<or> length (orders src) = length (images src)"
    by (auto simp: py_range_def)
  have "fst (orders_loop (fst axs) src ?ks [] ?st1) =
          Inr ([fresh st..<fresh st + length (concat (map (images_of_order src) ?ks))])"
    using orders_loop_ok(1) [OF ok, of "fst axs" "[]" ?st1] by simp
  then show ?thesis
    by (simp add: plot_room_def Let_def split_beta)
qed

lemma mset_filter_disjoint:
  assumes "\<And>x. \<not> (P x \<and> Q x)"
  shows "mset (map f (filter P xs)) + mset (map f (filter Q xs)) = mset (map f (filter (\<lambda>x. P x \<or> Q x) xs))"
  using assms by (induction xs) auto

lemma images_upto_mset:
  "mset (concat (map (\<lambda>k. map fst (filter (\<lambda>(pt, k'). k' = int k) zs)) [0..<N]))
     = mset (map fst (filter (\<lambda>(pt, k'). 0 \<le> k' \<and> k' < int N) zs))"
proof (induction N)
  case 0
  have "filter (\<lambda>(pt, k'). 0 \<le> k' \<and> k' < int 0) zs = []"
    by (induction zs) auto
  then show ?case by simp
next
  case (Suc N)
  have eq: "(\<lambda>(pt, k'). 0 \<le> k' \<and> k' < int (Suc N)) =
            (\<lambda>x. (case x of (pt, k') \<Rightarrow> 0 \<le> k' \<and> k' < int N) \<or> (case x of (pt, k') \<Rightarrow> k' = int N))"
    by (auto simp: fun_eq_iff)
  have "mset (map fst (filter (\<lambda>(pt, k'). 0 \<le> k' \<and> k' < int N) zs)) +
        mset (map fst (filter (\<lambda>(pt, k'). k' = int N) zs)) =
        mset (map fst (filter (\<lambda>(pt, k'). 0 \<le> k' \<and> k' < int (Suc N)) zs))"
    unfolding eq by (rule mset_filter_disjoint) auto
  with Suc.IH show ?case by simp
qed

lemma images_in_range_mset:
  "mset (concat (map (images_of_order src) (py_range (m + 1))))
     = mset (map fst (filter (\<lambda>(pt, k). 0 \<le> k \<and> k \<le> m) (zip (images src) (orders src))))"
proof -
  let ?zs = "zip (images src) (orders src)"
  have flt: "filter (\<lambda>(pt, k'). 0 \<le> k' \<and> k' < int (nat (m + 1))) ?zs
               = filter (\<lambda>(pt, k). 0 \<le> k \<and> k \<le> m) ?zs"
    by (rule filter_cong [OF refl]) auto
  have "concat (map (images_of_order src) (py_range (m + 1)))
          = concat (map (\<lambda>k. map fst (filter (\<lambda>(pt, k'). k' = int k) ?zs)) [0..<nat (m + 1)])"
    by (simp add: py_range_def images_of_order_def comp_def)
  then have "mset (concat (map (images_of_order src) (py_range (m + 1))))
          = mset (map fst (filter (\<lambda>(pt, k'). 0 \<le> k' \<and> k' < int (nat (m + 1))) ?zs))"
    by (simp only: images_upto_mset)
  then show ?thesis by (simp only: flt)
qed

lemma filter_snd_length:
  "length (filter (\<lambda>(x, y). P y) zs) = length (filter P (map snd zs))"
  by (induction zs) auto

lemma zip_filter_snd_length:
  assumes "length ys = length xs"
  shows "length (filter (\<lambda>(x, y). P y) (zip xs ys)) = length (filter P ys)"
  using assms by (simp add: filter_snd_length)

lemma images_in_range_length:
  assumes "length (orders src) = length (images src)"
  shows "length (concat (map (images_of_order src) (py_range (m + 1))))
           = length (filter (\<lambda>k. 0 \<le> k \<and> k \<le> m) (orders src))"
proof -
  have "size (mset (concat (map (images_of_order src) (py_range (m + 1)))))
          = size (mset (map fst (filter (\<lambda>(pt, k). 0 \<le> k \<and> k \<le> m) (zip (images src) (orders src)))))"
    by (simp only: images_in_range_mset)
  then have "length (concat (map (images_of_order src) (py_range (m + 1))))
          = length (filter (\<lambda>(pt, k). 0 \<le> k \<and> k \<le> m) (zip (images src) (orders src)))"
    by (simp only: size_mset length_map)
  also have "\<dots> = length (filter (\<lambda>k. 0 \<le> k \<and> k \<le> m) (orders src))"
    using assms by (rule zip_filter_snd_length)
  finally show ?thesis .
qed

lemma map_const_all:
  assumes "map f xs = map (\<lambda>y. c) ys"
  shows "\<forall>x \<in> set xs. f x = c"
proof
  fix x assume "x \<in> set xs"
  then have "f x \<in> set (map f xs)" by simp
  with assms have "f x \<in> set (map (\<lambda>y. c) ys)" by simp
  then show "f x = c" by auto
qed

text \<open>
  Claim C6. For image sources whose \<^verbatim>\<open>orders\<close> and \<^verbatim>\<open>images\<close> have the same number of
  entries, \<^verbatim>\<open>plot_room\<close> returns normally with a list of distinct circles, one for each
  image source whose order lies in \<open>0 .. max_order\<close>, centred at its position (in the
  order of the loop: by reflection order, then by index), each of radius \<open>0\<close> and each
  added to the patches of the first axes. Image sources of a higher order are not among
  them. The list has as many circles as there are image sources of order \<open>0 .. max_order\<close>,
  which is the number of image sources of order at most \<open>max_order\<close> when no order is
  negative, as reflection orders are not.
\<close>

theorem plot_room_circles:
  assumes "length (orders im_sources) = length (images im_sources)"
  shows "\<exists>line propagations.
     fst (plot_room axs walls mic_pos im_sources max_order fs init_rir st) = Inr (line, propagations) \<and>
     map (\<lambda>p. center (circle_of (snd (plot_room axs walls mic_pos im_sources max_order fs init_rir st)) p))
         propagations
       = concat (map (images_of_order im_sources) (py_range (max_order + 1))) \<and>
     mset (map (\<lambda>p. center (circle_of (snd (plot_room axs walls mic_pos im_sources max_order fs init_rir st)) p))
            propagations)
       = mset (map fst (filter (\<lambda>(pt, k). 0 \<le> k \<and> k \<le> max_order)
                               (zip (images im_sources) (orders im_sources)))) \<and>
     (\<forall>p \<in> set propagations.
        radius (circle_of (snd (plot_room axs walls mic_pos im_sources max_order fs init_rir st)) p) = 0) \<and>
     distinct propagations \<and>
     patches (axes_of (snd (plot_room axs walls mic_pos im_sources max_order fs init_rir st)) (fst axs))
       = patches (axes_of st (fst axs)) @ propagations \<and>
     length propagations = length (filter (\<lambda>k. 0 \<le> k \<and> k \<le> max_order) (orders im_sources)) \<and>
     ((\<forall>k \<in> set (orders im_sources). 0 \<le> k) \<longrightarrow>
        length propagations = length (filter (\<lambda>k. k \<le> max_order) (orders im_sources)))"
proof -
  let ?ks = "py_range (max_order + 1)"
  let ?pts = "concat (map (images_of_order im_sources) ?ks)"
  let ?st1 = "plot_walls_and_mic (fst axs) walls mic_pos st"
  let ?st2 = "snd (orders_loop (fst axs) im_sources ?ks [] ?st1)"
  let ?res = "plot_room axs walls mic_pos im_sources max_order fs init_rir st"
  let ?props = "[fresh st..<fresh st + length ?pts]"
  from assms have ok: "max_order < 0 \<or> length (orders im_sources) = length (images im_sources)"
    and ok': "?ks = [] \<or> length (orders im_sources) = length (images im_sources)"
    by simp_all
  have res: "fst ?res = Inr (fst (plot_waveform (snd axs) fs init_rir (set_labels axs ?st2)), ?props)"
    and st': "snd ?res = snd (plot_waveform (snd axs) fs init_rir (set_labels axs ?st2))"
    by (simp_all add: plot_room_unfold [OF ok])
  have circ: "circle_of (snd ?res) = circle_of ?st2"
    by (simp add: st' plot_waveform_fields)
  have centers: "map (\<lambda>p. center (circle_of (snd ?res) p)) ?props = ?pts"
    using orders_loop_new_ok [OF ok', of center "\<lambda>pt. pt" "fst axs" "[]" ?st1]
    by (simp add: circ)
  have "map (\<lambda>p. radius (circle_of (snd ?res) p)) ?props = map (\<lambda>pt. 0) ?pts"
    using orders_loop_new_ok [OF ok', of radius "\<lambda>pt. 0" "fst axs" "[]" ?st1]
    by (simp add: circ)
  then have radii: "\<forall>p \<in> set ?props. radius (circle_of (snd ?res) p) = 0"
    by (rule map_const_all)
  have pat: "patches (axes_of (snd ?res) (fst axs)) = patches (axes_of st (fst axs)) @ ?props"
    using orders_loop_ok(3) [OF ok', of "fst axs" "[]" ?st1]
    by (simp add: st' plot_waveform_fields)
  have len: "length ?props = length (filter (\<lambda>k. 0 \<le> k \<and> k \<le> max_order) (orders im_sources))"
    using images_in_range_length [OF assms, of max_order] by simp
  have len': "length ?props = length (filter (\<lambda>k. k \<le> max_order) (orders im_sources))"
    if "\<forall>k \<in> set (orders im_sources). 0 \<le> k"
  proof -
    from that have "filter (\<lambda>k. 0 \<le> k \<and> k \<le> max_order) (orders im_sources)
                      = filter (\<lambda>k. k \<le> max_order) (orders im_sources)"
      by (intro filter_cong) auto
    with len show ?thesis by simp
  qed
  have ms: "mset (map (\<lambda>p. center (circle_of (snd ?res) p)) ?props)
              = mset (map fst (filter (\<lambda>(pt, k). 0 \<le> k \<and> k \<le> max_order)
                                 (zip (images im_sources) (orders im_sources))))"
    by (simp only: centers images_in_range_mset)
  have "distinct ?props" by simp
  with res centers ms radii pat len len' show ?thesis by blast
qed


theorem plot_room_circles_witness:
  "length (orders demo_source_1) = length (images demo_source_1) \<and>
   (\<exists>line propagations.
      fst (plot_room (0, 1) (room_walls demo_room) (6.316, 3.754) demo_source_1 1 30 [] empty_store)
        = Inr (line, propagations) \<and>
      map (\<lambda>p. center (circle_of (snd (plot_room (0, 1) (room_walls demo_room) (6.316, 3.754)
                                          demo_source_1 1 30 [] empty_store)) p)) propagations
        = [(2, 4), (-2, 4), (18, 4), (2, -4), (2, 8)] \<and>
      length propagations = 5 \<and> distinct propagations \<and>
      length propagations = length (filter (\<lambda>k. k \<le> 1) (orders demo_source_1)))"
proof -
  have len: "length (orders demo_source_1) = length (images demo_source_1)"
    by (simp add: demo_source_1_def)
  have nonneg: "\<forall>k \<in> set (orders demo_source_1). 0 \<le> k"
    by (simp add: demo_source_1_def)
  have rng: "py_range (1 + 1) = [0, 1]"
    by (simp add: py_range_def upt_rec)
  have pts: "concat (map (images_of_order demo_source_1) [0, 1]) = [(2, 4), (-2, 4), (18, 4), (2, -4), (2, 8)]"
    by (simp add: images_of_order_def demo_source_1_def)
  have cnt: "length (filter (\<lambda>k. 0 \<le> k \<and> k \<le> 1) (orders demo_source_1)) = 5"
    by (simp add: demo_source_1_def)
  from plot_room_circles [OF len, of "(0, 1)" "room_walls demo_room" "(6.316, 3.754)" 1 30 "[]" empty_store]
  obtain line propagations where
    "fst (plot_room (0, 1) (room_walls demo_room) (6.316, 3.754) demo_source_1 1 30 [] empty_store)
       = Inr (line, propagations)"
    "map (\<lambda>p. center (circle_of (snd (plot_room (0, 1) (room_walls demo_room) (6.316, 3.754)
                                          demo_source_1 1 30 [] empty_store)) p)) propagations
        = [(2, 4), (-2, 4), (18, 4), (2, -4), (2, 8)]"
    "length propagations = 5" "distinct propagations"
    "length propagations = length (filter (\<lambda>k. k \<le> 1) (orders demo_source_1))"
    unfolding rng pts cnt using nonneg by auto
  with len show ?thesis by auto
qed

lemma plot_room_lines:
  assumes "max_order < 0 \<or> length (orders im_sources) = length (images im_sources)"
  shows "\<exists>line propagations new_lines.
     fst (plot_room axs walls mic_pos im_sources max_order fs init_rir st) = Inr (line, propagations) \<and>
     lines (axes_of (snd (plot_room axs walls mic_pos im_sources max_order fs init_rir st)) (snd axs))
       = lines (axes_of st (snd axs)) @ new_lines \<and>
     map (line_of (snd (plot_room axs walls mic_pos im_sources max_order fs init_rir st))) new_lines
       = (if init_rir = [] then [\<lparr>xdata = [], ydata = []\<rparr>]
          else [\<lparr>xdata = map (\<lambda>k. real k / fs) [0..<length init_rir], ydata = init_rir\<rparr>,
                \<lparr>xdata = [], ydata = []\<rparr>]) \<and>
     line = last new_lines"
proof -
  let ?ks = "py_range (max_order + 1)"
  let ?st1 = "plot_walls_and_mic (fst axs) walls mic_pos st"
  let ?st2 = "snd (orders_loop (fst axs) im_sources ?ks [] ?st1)"
  let ?st3 = "set_labels axs ?st2"
  let ?res = "plot_room axs walls mic_pos im_sources max_order fs init_rir st"
  let ?new = "if init_rir = [] then [fresh ?st3] else [fresh ?st3, Suc (fresh ?st3)]"
  have res: "fst ?res = Inr (fst (plot_waveform (snd axs) fs init_rir ?st3),
               [fresh st..<fresh st + length (concat (map (images_of_order im_sources) ?ks))])"
    and st': "snd ?res = snd (plot_waveform (snd axs) fs init_rir ?st3)"
    by (simp_all add: plot_room_unfold [OF assms])
  have "lines (axes_of (snd ?res) (snd axs)) = lines (axes_of ?st3 (snd axs)) @ ?new"
    unfolding st' by (rule plot_waveform_fields(4))
  then have l: "lines (axes_of (snd ?res) (snd axs)) = lines (axes_of st (snd axs)) @ ?new"
    by (simp add: orders_loop_lines)
  have d: "map (line_of (snd ?res)) ?new
       = (if init_rir = [] then [\<lparr>xdata = [], ydata = []\<rparr>]
          else [\<lparr>xdata = map (\<lambda>k. real k / fs) [0..<length init_rir], ydata = init_rir\<rparr>,
                \<lparr>xdata = [], ydata = []\<rparr>])"
    unfolding st' by (rule plot_waveform_fields(5))
  have r: "fst (plot_waveform (snd axs) fs init_rir ?st3) = last ?new"
    by (simp add: plot_waveform_fields(1))
  from res l d r show ?thesis by blast
qed

text \<open>
  Claim C7. When \<^verbatim>\<open>plot_room\<close> returns, the lines it has added to the second axes are:
  for a non-empty \<^verbatim>\<open>init_rir\<close>, the reference waveform (\<^verbatim>\<open>init_rir\<close> against the times
  \<open>k / fs\<close> for \<open>k = 0 .. size - 1\<close>) followed by the empty line it returns; for an empty
  \<^verbatim>\<open>init_rir\<close>, which is the default, the empty line alone.
\<close>

theorem plot_room_reference_waveform:
  assumes "max_order < 0 \<or> length (orders im_sources) = length (images im_sources)"
  shows "(\<exists>line propagations new_lines.
     fst (plot_room axs walls mic_pos im_sources max_order fs init_rir st) = Inr (line, propagations) \<and>
     lines (axes_of (snd (plot_room axs walls mic_pos im_sources max_order fs init_rir st)) (snd axs))
       = lines (axes_of st (snd axs)) @ new_lines \<and>
     map (line_of (snd (plot_room axs walls mic_pos im_sources max_order fs init_rir st))) new_lines
       = (if init_rir = [] then [\<lparr>xdata = [], ydata = []\<rparr>]
          else [\<lparr>xdata = map (\<lambda>k. real k / fs) [0..<length init_rir], ydata = init_rir\<rparr>,
                \<lparr>xdata = [], ydata = []\<rparr>]) \<and>
     line = last new_lines) \<and>
   (\<exists>line propagations.
     fst (plot_room_defaults axs walls mic_pos im_sources max_order st) = Inr (line, propagations) \<and>
     lines (axes_of (snd (plot_room_defaults axs walls mic_pos im_sources max_order st)) (snd axs))
       = lines (axes_of st (snd axs)) @ [line] \<and>
     line_of (snd (plot_room_defaults axs walls mic_pos im_sources max_order st)) line
       = \<lparr>xdata = [], ydata = []\<rparr>)"
proof
  show "\<exists>line propagations new_lines.
     fst (plot_room axs walls mic_pos im_sources max_order fs init_rir st) = Inr (line, propagations) \<and>
     lines (axes_of (snd (plot_room axs walls mic_pos im_sources max_order fs init_rir st)) (snd axs))
       = lines (axes_of st (snd axs)) @ new_lines \<and>
     map (line_of (snd (plot_room axs walls mic_pos im_sources max_order fs init_rir st))) new_lines
       = (if init_rir = [] then [\<lparr>xdata = [], ydata = []\<rparr>]
          else [\<lparr>xdata = map (\<lambda>k. real k / fs) [0..<length init_rir], ydata = init_rir\<rparr>,
                \<lparr>xdata = [], ydata = []\<rparr>]) \<and>
     line = last new_lines"
    using assms by (rule plot_room_lines)
next
  have "\<exists>line propagations new_lines.
      fst (plot_room axs walls mic_pos im_sources max_order 1 [] st) = Inr (line, propagations) \<and>
      lines (axes_of (snd (plot_room axs walls mic_pos im_sources max_order 1 [] st)) (snd axs))
        = lines (axes_of st (snd axs)) @ new_lines \<and>
      map (line_of (snd (plot_room axs walls mic_pos im_sources max_order 1 [] st))) new_lines
        = [\<lparr>xdata = [], ydata = []\<rparr>] \<and>
      line = last new_lines"
    using plot_room_lines [OF assms, of axs walls mic_pos 1 "[]" st] by simp
  then obtain line propagations new_lines where
    r: "fst (plot_room axs walls mic_pos im_sources max_order 1 [] st) = Inr (line, propagations)"
    and l: "lines (axes_of (snd (plot_room axs walls mic_pos im_sources max_order 1 [] st)) (snd axs))
              = lines (axes_of st (snd axs)) @ new_lines"
    and d: "map (line_of (snd (plot_room axs walls mic_pos im_sources max_order 1 [] st))) new_lines
              = [\<lparr>xdata = [], ydata = []\<rparr>]"
    and e: "line = last new_lines"
    by (elim exE conjE)
  from d e have "new_lines = [line]"
    by (cases new_lines) auto
  with r l d show "\<exists>line propagations.
     fst (plot_room_defaults axs walls mic_pos im_sources max_order st) = Inr (line, propagations) \<and>
     lines (axes_of (snd (plot_room_defaults axs walls mic_pos im_sources max_order st)) (snd axs))
       = lines (axes_of st (snd axs)) @ [line] \<and>
     line_of (snd (plot_room_defaults axs walls mic_pos im_sources max_order st)) line
       = \<lparr>xdata = [], ydata = []\<rparr>"
    by (simp add: plot_room_defaults_def)
qed

theorem plot_room_reference_waveform_witness:
  "(1 < (0::int) \<or> length (orders demo_source_1) = length (images demo_source_1)) \<and>
   (\<exists>line propagations new_lines.
      fst (plot_room (0, 1) (room_walls demo_room) (6.316, 3.754) demo_source_1 1 30 [0.5, 0.25] empty_store)
        = Inr (line, propagations) \<and>
      lines (axes_of (snd (plot_room (0, 1) (room_walls demo_room) (6.316, 3.754) demo_source_1 1 30
                             [0.5, 0.25] empty_store)) 1) = new_lines \<and>
      map (line_of (snd (plot_room (0, 1) (room_walls demo_room) (6.316, 3.754) demo_source_1 1 30
                             [0.5, 0.25] empty_store))) new_lines
        = [\<lparr>xdata = [0, 1 / 30], ydata = [0.5, 0.25]\<rparr>, \<lparr>xdata = [], ydata = []\<rparr>] \<and>
      line = last new_lines)"
proof -
  have len: "length (orders demo_source_1) = length (images demo_source_1)"
    by (simp add: demo_source_1_def)
  then have ok: "1 < (0::int) \<or> length (orders demo_source_1) = length (images demo_source_1)"
    by simp
  have up: "[0..<length [0.5, 0.25 :: real]] = [0, Suc 0]"
    by (simp add: upt_rec)
  have old: "lines (axes_of empty_store (snd (0 :: ref, 1 :: ref))) = []"
    by (simp add: empty_store_def default_axes_def)
  from plot_room_reference_waveform [OF ok, of "(0, 1)" "room_walls demo_room" "(6.316, 3.754)" 30
      "[0.5, 0.25]" empty_store]
  have "\<exists>line propagations new_lines.
      fst (plot_room (0, 1) (room_walls demo_room) (6.316, 3.754) demo_source_1 1 30 [0.5, 0.25] empty_store)
        = Inr (line, propagations) \<and>
      lines (axes_of (snd (plot_room (0, 1) (room_walls demo_room) (6.316, 3.754) demo_source_1 1 30
                             [0.5, 0.25] empty_store)) 1) = new_lines \<and>
      map (line_of (snd (plot_room (0, 1) (room_walls demo_room) (6.316, 3.754) demo_source_1 1 30
                             [0.5, 0.25] empty_store))) new_lines
        = [\<lparr>xdata = [0, 1 / 30], ydata = [0.5, 0.25]\<rparr>, \<lparr>xdata = [], ydata = []\<rparr>] \<and>
      line = last new_lines"
    unfolding up old by simp
  with len show ?thesis by simp
qed

section \<open>The effect of create_animation\<close>

lemma animate_absorb:
  "snd (animate n ax l ps rir fs (snd (animate m ax l ps rir fs st))) = snd (animate n ax l ps rir fs st)"
proof (cases "fs = 0")
  case True
  then show ?thesis by (simp add: animate_def)
next
  case False
  have "animate_loop n ax l rir fs t ps (animate_loop m ax l rir fs t' ps st)
          = animate_loop n ax l rir fs t ps st" for t t'
    by (rule store.equality)
      (auto simp: animate_loop_axes animate_loop_circle animate_loop_line animate_loop_fresh fun_eq_iff)
  with False show ?thesis by (simp add: animate_def)
qed

lemma anim_frames_zero: "room_fs room = 0 \<Longrightarrow> anim_frames room = []"
  by (simp add: anim_frames_def py_int_def py_range_def)

lemma anim_frames_length: "length (anim_frames room) = nat (py_int (0.1 * room_fs room))"
  by (simp add: anim_frames_def py_range_def)

lemma save_frames_closed:
  assumes "fs \<noteq> 0"
  shows "fst (save_frames fig ax l ps rir fs ns acc st) =
           (if list_all (\<lambda>n. drawable (snd (animate n ax l ps rir fs st)) fig) ns
            then Inr () else Inl ValueError) \<and>
         fst (snd (save_frames fig ax l ps rir fs ns acc st)) =
           acc @ map (\<lambda>n. render (snd (animate n ax l ps rir fs st)) fig)
                  (takeWhile (\<lambda>n. drawable (snd (animate n ax l ps rir fs st)) fig) ns)"
proof (induction ns arbitrary: acc st)
  case Nil
  then show ?case by simp
next
  case (Cons n ns)
  have ok: "animate n ax l ps rir fs st = (Inr (), snd (animate n ax l ps rir fs st))"
    using assms by (simp add: animate_def)
  show ?case
  proof (cases "drawable (snd (animate n ax l ps rir fs st)) fig")
    case True
    then show ?thesis
      by (subst (1 2) save_frames.simps, subst (1 2) ok)
        (simp add: draw_def Cons.IH animate_absorb)
  next
    case False
    then show ?thesis
      by (subst (1 2) save_frames.simps, subst (1 2) ok) (simp add: draw_def)
  qed
qed

lemma export_negative:
  assumes "py_int (0.1 * room_fs room) < 0"
  shows "export axs line props room rir filename w = (Inl ValueError, w)"
  using assms by (simp add: export_def)

lemma save_anim_frames:
  "fst (save_frames axs (fst axs) line props rir (room_fs room) (anim_frames room) [] st) =
     (if list_all (frame_drawable axs line props rir (room_fs room) st) (anim_frames room)
      then Inr () else Inl ValueError) \<and>
   fst (snd (save_frames axs (fst axs) line props rir (room_fs room) (anim_frames room) [] st)) =
     map (\<lambda>n. render (snd (animate n (fst axs) line props rir (room_fs room) st)) axs)
       (takeWhile (frame_drawable axs line props rir (room_fs room) st) (anim_frames room))"
proof (cases "room_fs room = 0")
  case True
  then show ?thesis by (simp add: anim_frames_zero)
next
  case False
  have eq: "frame_drawable axs line props rir (room_fs room) st
              = (\<lambda>n. drawable (snd (animate n (fst axs) line props rir (room_fs room) st)) axs)"
    by (simp add: fun_eq_iff frame_drawable_def)
  from save_frames_closed [OF False, of axs "fst axs" line props rir "anim_frames room" "[]" st]
  show ?thesis unfolding eq by simp
qed

lemma export_outcome:
  assumes "0 \<le> py_int (0.1 * room_fs room)"
  shows "fst (export axs line props room rir filename w) =
           (if takeWhile (frame_drawable axs line props rir (room_fs room) (objects w)) (anim_frames room) = []
            then Inl CalledProcessError
            else if list_all (frame_drawable axs line props rir (room_fs room) (objects w)) (anim_frames room)
            then Inr () else Inl ValueError)"
    and "files (snd (export axs line props room rir filename w)) =
           (if takeWhile (frame_drawable axs line props rir (room_fs room) (objects w)) (anim_frames room) = []
            then files w
            else (files w)(filename @ ''.mp4'' \<mapsto>
              \<lparr>writer = ''FFMpegFileWriter'', fps = 60,
               frames = map (\<lambda>n. render (snd (animate n (fst axs) line props rir (room_fs room)
                                                (objects w))) axs)
                          (takeWhile (frame_drawable axs line props rir (room_fs room) (objects w))
                             (anim_frames room))\<rparr>))"
    and "figures (snd (export axs line props room rir filename w)) =
           (if list_all (frame_drawable axs line props rir (room_fs room) (objects w)) (anim_frames room)
               \<and> anim_frames room \<noteq> []
            then butlast (figures w) else figures w)"
proof -
  let ?sf = "save_frames axs (fst axs) line props rir (room_fs room) (anim_frames room) [] (objects w)"
  let ?ok = "frame_drawable axs line props rir (room_fs room) (objects w)"
  note sf = save_anim_frames [of axs line props rir room "objects w"]
  have sp: "?sf = (fst ?sf, fst (snd ?sf), snd (snd ?sf))" by simp
  have all: "list_all ?ok (anim_frames room) \<Longrightarrow> takeWhile ?ok (anim_frames room) = anim_frames room"
    by (simp add: list_all_iff)
  have nall: "\<not> list_all ?ok (anim_frames room) \<Longrightarrow> anim_frames room \<noteq> []"
    by auto
  show "fst (export axs line props room rir filename w) =
           (if takeWhile ?ok (anim_frames room) = [] then Inl CalledProcessError
            else if list_all ?ok (anim_frames room) then Inr () else Inl ValueError)"
    using assms sf by (subst export_def, subst sp) (simp add: Let_def)
  show "files (snd (export axs line props room rir filename w)) =
           (if takeWhile ?ok (anim_frames room) = [] then files w
            else (files w)(filename @ ''.mp4'' \<mapsto>
              \<lparr>writer = ''FFMpegFileWriter'', fps = 60,
               frames = map (\<lambda>n. render (snd (animate n (fst axs) line props rir (room_fs room)
                                                (objects w))) axs)
                          (takeWhile ?ok (anim_frames room))\<rparr>))"
    using assms sf by (subst export_def, subst sp) (simp add: Let_def close_def)
  show "figures (snd (export axs line props room rir filename w)) =
           (if list_all ?ok (anim_frames room) \<and> anim_frames room \<noteq> []
            then butlast (figures w) else figures w)"
  proof (cases "list_all ?ok (anim_frames room)")
    case True
    with all have tw: "takeWhile ?ok (anim_frames room) = anim_frames room" by simp
    from True assms sf show ?thesis
      by (subst export_def, subst sp) (simp add: Let_def close_def tw)
  next
    case False
    with assms sf show ?thesis
      by (subst export_def, subst sp) (simp add: Let_def close_def)
  qed
qed

lemma animate_keeps_lists:
  "patches (axes_of (snd (animate n ax l ps rir fs st)) b) = patches (axes_of st b)"
  "lines (axes_of (snd (animate n ax l ps rir fs st)) b) = lines (axes_of st b)"
  by (simp_all add: animate_def animate_loop_axes)

lemma animate_circle:
  assumes "fs \<noteq> 0"
  shows "circle_of (snd (animate n ax l ps rir fs st)) q =
     (if q \<in> set ps
      then (circle_of st q)\<lparr>radius := real_of_int n / fs * 343, alpha := Some (1 - real_of_int n / fs * 10)\<rparr>
      else circle_of st q)"
  using assms by (simp add: animate_def animate_loop_circle)

lemma animate_line:
  assumes "fs \<noteq> 0"
  shows "line_of (snd (animate n ax l ps rir fs st)) =
     (if ps = [] then line_of st
      else (line_of st)(l := \<lparr>xdata = map (\<lambda>k. k / fs) (np_arange n), ydata = slice_to rir n\<rparr>))"
  using assms by (simp add: animate_def animate_loop_line)

lemma frame_circles:
  assumes "static_plot st axs line props" and "fs \<noteq> 0"
  shows "fst (snd (fst (render (snd (animate n (fst axs) line props rir fs st)) axs))) =
     map (\<lambda>p. (circle_of st p)\<lparr>radius := real_of_int n / fs * 343,
                                  alpha := Some (1 - real_of_int n / fs * 10)\<rparr>) props"
proof -
  from assms(1) have p: "patches (axes_of st (fst axs)) = props"
    by (simp add: static_plot_def)
  show ?thesis
    by (simp add: render_def panel_def animate_keeps_lists p animate_circle [OF assms(2)])
qed

lemma frame_lines:
  assumes "static_plot st axs line props" and "fs \<noteq> 0"
  shows "snd (snd (fst (render (snd (animate n (fst axs) line props rir fs st)) axs))) = []"
    and "snd (snd (snd (render (snd (animate n (fst axs) line props rir fs st)) axs))) =
      map (line_of st) (butlast (lines (axes_of st (snd axs)))) @
      [if props = [] then \<lparr>xdata = [], ydata = []\<rparr>
       else \<lparr>xdata = map (\<lambda>k. k / fs) (np_arange n), ydata = slice_to rir n\<rparr>]"
proof -
  let ?ls = "lines (axes_of st (snd axs))"
  let ?st' = "snd (animate n (fst axs) line props rir fs st)"
  from assms(1) have la: "lines (axes_of st (fst axs)) = []"
    and ne: "?ls \<noteq> []" and last: "last ?ls = line" and notin: "line \<notin> set (butlast ?ls)"
    and empty: "line_of st line = \<lparr>xdata = [], ydata = []\<rparr>"
    by (simp_all add: static_plot_def)
  show "snd (snd (fst (render ?st' axs))) = []"
    by (simp add: render_def panel_def animate_keeps_lists la)
  have split: "?ls = butlast ?ls @ [line]"
    using ne last by (metis append_butlast_last_id)
  have old: "map (line_of ?st') (butlast ?ls) = map (line_of st) (butlast ?ls)"
    using notin by (intro map_cong refl) (auto simp: animate_line [OF assms(2)])
  have new: "line_of ?st' line =
      (if props = [] then \<lparr>xdata = [], ydata = []\<rparr>
       else \<lparr>xdata = map (\<lambda>k. k / fs) (np_arange n), ydata = slice_to rir n\<rparr>)"
    by (simp add: animate_line [OF assms(2)] empty)
  have "map (line_of ?st') ?ls = map (line_of ?st') (butlast ?ls) @ [line_of ?st' line]"
    by (subst split) simp
  then show "snd (snd (snd (render ?st' axs))) =
      map (line_of st) (butlast ?ls) @
      [if props = [] then \<lparr>xdata = [], ydata = []\<rparr>
       else \<lparr>xdata = map (\<lambda>k. k / fs) (np_arange n), ydata = slice_to rir n\<rparr>]"
    by (simp add: render_def panel_def animate_keeps_lists old new)
qed

lemma frame_drawable_iff:
  assumes "static_plot st axs line props" and "fs \<noteq> 0"
  shows "frame_drawable axs line props rir fs st n \<longleftrightarrow>
           props = [] \<or> broadcastable (nat n) (length (slice_to rir n))"
proof -
  from assms(1) have d: "list_all line_drawable (map (line_of st) (butlast (lines (axes_of st (snd axs)))))"
    by (simp add: static_plot_def)
  have "frame_drawable axs line props rir fs st n \<longleftrightarrow>
          list_all line_drawable (snd (snd (fst (render (snd (animate n (fst axs) line props rir fs st)) axs)))) \<and>
          list_all line_drawable (snd (snd (snd (render (snd (animate n (fst axs) line props rir fs st)) axs))))"
    by (simp add: frame_drawable_def drawable_def render_def)
  also have "\<dots> \<longleftrightarrow> props = [] \<or> broadcastable (nat n) (length (slice_to rir n))"
    unfolding frame_lines [OF assms] using d
    by (simp add: line_drawable_def broadcastable_def np_arange_length)
  finally show ?thesis .
qed

lemma frame_drawable_within:
  assumes "static_plot st axs line props" and "fs \<noteq> 0" and "0 \<le> n" and "n \<le> int (length rir)"
  shows "frame_drawable axs line props rir fs st n"
  using assms(3,4) by (simp add: frame_drawable_iff [OF assms(1,2)] broadcastable_def slice_to_def)

lemma orders_loop_other_patches:
  assumes "b \<noteq> a"
  shows "patches (axes_of (snd (orders_loop a src ks props st)) b) = patches (axes_of st b)"
proof (induction ks arbitrary: props st)
  case Nil
  then show ?case by simp
next
  case (Cons k ks)
  show ?case
  proof (cases "length (orders src) = length (images src)")
    case True
    show ?thesis
      unfolding orders_loop_step [OF True] Cons.IH
      using assms by (simp add: circles_loop_axes)
  next
    case False
    then show ?thesis by simp
  qed
qed

lemma plot_waveform_static:
  assumes "lines (axes_of st b) = []"
  shows "lines (axes_of (snd (plot_waveform b fs init_rir st)) b) \<noteq> []"
    and "last (lines (axes_of (snd (plot_waveform b fs init_rir st)) b)) = fst (plot_waveform b fs init_rir st)"
    and "fst (plot_waveform b fs init_rir st)
           \<notin> set (butlast (lines (axes_of (snd (plot_waveform b fs init_rir st)) b)))"
    and "list_all line_drawable (map (line_of (snd (plot_waveform b fs init_rir st)))
           (butlast (lines (axes_of (snd (plot_waveform b fs init_rir st)) b))))"
    and "line_of (snd (plot_waveform b fs init_rir st)) (fst (plot_waveform b fs init_rir st))
           = \<lparr>xdata = [], ydata = []\<rparr>"
  using assms
  by (simp_all add: plot_waveform_def plot_def Let_def np_arange_def line_drawable_def
      broadcastable_def)

lemma plot_waveform_other_lines:
  assumes "a \<noteq> b"
  shows "lines (axes_of (snd (plot_waveform b fs init_rir st)) a) = lines (axes_of st a)"
  using assms by (simp add: plot_waveform_def plot_def Let_def)

lemma images_in_range_length_ok:
  assumes "max_order < 0 \<or> length (orders src) = length (images src)"
  shows "length (concat (map (images_of_order src) (py_range (max_order + 1))))
           = length (filter (\<lambda>k. 0 \<le> k \<and> k \<le> max_order) (orders src))"
proof (cases "max_order < 0")
  case True
  then have "filter (\<lambda>k. 0 \<le> k \<and> k \<le> max_order) (orders src) = []"
    by (induction "orders src") (auto simp: filter_empty_conv)
  with True show ?thesis by (simp add: py_range_def)
next
  case False
  with assms have "length (orders src) = length (images src)" by simp
  then show ?thesis by (rule images_in_range_length)
qed

lemma plot_room_static:
  assumes ok: "max_order < 0 \<or> length (orders src) = length (images src)"
    and ne: "fst axs \<noteq> snd axs"
    and e: "patches (axes_of st (fst axs)) = []" "lines (axes_of st (fst axs)) = []"
       "patches (axes_of st (snd axs)) = []" "lines (axes_of st (snd axs)) = []"
  shows "\<exists>line props.
     fst (plot_room axs walls mic_pos src max_order fs init_rir st) = Inr (line, props) \<and>
     static_plot (snd (plot_room axs walls mic_pos src max_order fs init_rir st)) axs line props \<and>
     map (\<lambda>p. center (circle_of (snd (plot_room axs walls mic_pos src max_order fs init_rir st)) p)) props
       = concat (map (images_of_order src) (py_range (max_order + 1))) \<and>
     length props = length (filter (\<lambda>k. 0 \<le> k \<and> k \<le> max_order) (orders src))"
proof -
  let ?ks = "py_range (max_order + 1)"
  let ?pts = "concat (map (images_of_order src) ?ks)"
  let ?st1 = "plot_walls_and_mic (fst axs) walls mic_pos st"
  let ?st2 = "snd (orders_loop (fst axs) src ?ks [] ?st1)"
  let ?st3 = "set_labels axs ?st2"
  let ?res = "plot_room axs walls mic_pos src max_order fs init_rir st"
  let ?line = "fst (plot_waveform (snd axs) fs init_rir ?st3)"
  let ?props = "[fresh st..<fresh st + length ?pts]"
  from ok have ok': "?ks = [] \<or> length (orders src) = length (images src)"
    by (auto simp: py_range_def)
  have res: "fst ?res = Inr (?line, ?props)"
    and st': "snd ?res = snd (plot_waveform (snd axs) fs init_rir ?st3)"
    by (simp_all add: plot_room_unfold [OF ok])
  have l3: "lines (axes_of ?st3 (snd axs)) = []" "lines (axes_of ?st3 (fst axs)) = []"
    by (simp_all add: orders_loop_lines e)
  have pa: "patches (axes_of (snd ?res) (fst axs)) = ?props"
    using orders_loop_ok(3) [OF ok', of "fst axs" "[]" ?st1]
    by (simp add: st' plot_waveform_fields e)
  have pb: "patches (axes_of (snd ?res) (snd axs)) = []"
    using ne by (simp add: st' plot_waveform_fields orders_loop_other_patches e)
  have la: "lines (axes_of (snd ?res) (fst axs)) = []"
    using ne by (simp add: st' plot_waveform_other_lines orders_loop_lines e)
  have sp: "static_plot (snd ?res) axs ?line ?props"
    unfolding static_plot_def st' [symmetric]
    using ne pa pb la plot_waveform_static [OF l3(1), of fs init_rir]
    by (simp add: st')
  have circ: "circle_of (snd ?res) = circle_of ?st2"
    by (simp add: st' plot_waveform_fields)
  have centers: "map (\<lambda>p. center (circle_of (snd ?res) p)) ?props = ?pts"
    using orders_loop_new_ok [OF ok', of center "\<lambda>pt. pt" "fst axs" "[]" ?st1]
    by (simp add: circ)
  have len: "length ?props = length (filter (\<lambda>k. 0 \<le> k \<and> k \<le> max_order) (orders src))"
    using images_in_range_length_ok [OF ok] by simp
  from res sp centers len show ?thesis by blast
qed

lemma subplots_fields:
  "fst (subplots w) = (fresh (objects w), Suc (fresh (objects w)))"
  "figures (snd (subplots w)) = figures w @
     [\<lparr>fig_axes = (fresh (objects w), Suc (fresh (objects w))), figsize = (6, 6),
       height_ratios = [3, 1], tight = False\<rparr>]"
  "files (snd (subplots w)) = files w"
  by (simp_all add: subplots_def new_axes_def Let_def)

lemma open_and_plot_ok:
  assumes "py_index (mic_positions room) (fst idx) = Inr mic_pos"
    and "py_index (room_sources room) (snd idx) = Inr src"
    and "room_max_order room < 0 \<or> length (orders src) = length (images src)"
  shows "\<exists>line props.
     fst (plot_room (fst (subplots w)) (room_walls room) mic_pos src (room_max_order room)
            (room_fs room) init_rir (objects (snd (subplots w)))) = Inr (line, props) \<and>
     open_and_plot room idx init_rir w =
       (Inr (fst (subplots w), line, props),
        (snd (subplots w))\<lparr>objects :=
           snd (plot_room (fst (subplots w)) (room_walls room) mic_pos src (room_max_order room)
                  (room_fs room) init_rir (objects (snd (subplots w))))\<rparr>)"
proof -
  let ?pr = "plot_room (fst (subplots w)) (room_walls room) mic_pos src (room_max_order room)
            (room_fs room) init_rir (objects (snd (subplots w)))"
  from plot_room_unfold [OF assms(3)]
  obtain line props where r: "fst ?pr = Inr (line, props)"
    by (metis fst_conv)
  then have "open_and_plot room idx init_rir w =
       (Inr (fst (subplots w), line, props), (snd (subplots w))\<lparr>objects := snd ?pr\<rparr>)"
    using assms(1,2) by (simp add: open_and_plot_def split_beta Let_def)
  with r show ?thesis by blast
qed

lemma open_and_plot_world:
  assumes "open_and_plot room idx init_rir w = (r, w1)"
  shows "figures w1 = figures (snd (subplots w))" and "files w1 = files w"
  using assms
  by (auto simp: open_and_plot_def split_beta Let_def subplots_fields
      split: sum.splits prod.splits)

lemma restrict_view_ok:
  assumes "g ''room_dim'' = Some dims" and "2 \<le> length dims"
  shows "restrict_view g a st = (Inr (), set_ylim a (0, dims ! 1) (set_xlim a (0, dims ! 0) st))"
proof -
  from assms(2) have "py_index dims 0 = Inr (dims ! 0)" and "py_index dims 1 = Inr (dims ! 1)"
    by (auto simp: py_index_def)
  with assms(1) show ?thesis by (simp add: restrict_view_def)
qed

lemma restrict_view_undefined:
  assumes "g ''room_dim'' = None"
  shows "restrict_view g a st = (Inl NameError, st)"
  using assms by (simp add: restrict_view_def)

lemma create_animation_ok:
  assumes "open_and_plot room idx init_rir w = (Inr (axs, line, props), w1)"
    and "g ''room_dim'' = Some dims" and "2 \<le> length dims"
  shows "create_animation g room rir idx init_rir filename w =
     export axs line props room rir filename
       (tight_layout (w1\<lparr>objects := set_ylim (fst axs) (0, dims ! 1)
                                       (set_xlim (fst axs) (0, dims ! 0) (objects w1))\<rparr>))"
  using assms by (simp add: create_animation_def restrict_view_ok)

lemma create_animation_name_error:
  assumes "open_and_plot room idx init_rir w = (Inr (axs, line, props), w1)"
    and "g ''room_dim'' = None"
  shows "create_animation g room rir idx init_rir filename w = (Inl NameError, w1)"
  using assms by (simp add: create_animation_def restrict_view_undefined)

lemma create_animation_needs_global:
  assumes "g ''room_dim'' = None"
  shows "fst (create_animation g room rir idx init_rir filename w) \<noteq> Inr ()"
proof (cases "open_and_plot room idx init_rir w")
  case (Pair r w1)
  show ?thesis
  proof (cases r)
    case (Inl e)
    with Pair show ?thesis by (simp add: create_animation_def)
  next
    case (Inr t)
    then obtain axs line props where "r = Inr (axs, line, props)"
      by (cases t) auto
    with Pair assms show ?thesis by (simp add: create_animation_name_error)
  qed
qed

lemma tight_layout_fields:
  "objects (tight_layout w) = objects w" "files (tight_layout w) = files w"
  "butlast (figures (tight_layout w)) = butlast (figures w)"
  by (simp_all add: tight_layout_def split: list.splits)

lemma subplots_axes:
  "fst (fst (subplots w)) \<noteq> snd (fst (subplots w))"
  "axes_of (objects (snd (subplots w))) (fst (fst (subplots w))) = default_axes"
  "axes_of (objects (snd (subplots w))) (snd (fst (subplots w))) = default_axes"
  by (simp_all add: subplots_def new_axes_def Let_def)

lemma open_and_plot_static:
  assumes "py_index (mic_positions room) (fst idx) = Inr mic_pos"
    and "py_index (room_sources room) (snd idx) = Inr src"
    and "room_max_order room < 0 \<or> length (orders src) = length (images src)"
  shows "\<exists>line props w1.
     open_and_plot room idx init_rir w = (Inr (fst (subplots w), line, props), w1) \<and>
     static_plot (objects w1) (fst (subplots w)) line props \<and>
     map (\<lambda>p. center (circle_of (objects w1) p)) props
       = concat (map (images_of_order src) (py_range (room_max_order room + 1))) \<and>
     length props = length (filter (\<lambda>k. 0 \<le> k \<and> k \<le> room_max_order room) (orders src)) \<and>
     figures w1 = figures w @ [\<lparr>fig_axes = fst (subplots w), figsize = (6, 6),
                                height_ratios = [3, 1], tight = False\<rparr>] \<and>
     files w1 = files w"
proof -
  let ?axs = "fst (subplots w)"
  let ?st = "objects (snd (subplots w))"
  let ?pr = "plot_room ?axs (room_walls room) mic_pos src (room_max_order room) (room_fs room) init_rir ?st"
  let ?w1 = "(snd (subplots w))\<lparr>objects := snd ?pr\<rparr>"
  have e: "patches (axes_of ?st (fst ?axs)) = []" "lines (axes_of ?st (fst ?axs)) = []"
          "patches (axes_of ?st (snd ?axs)) = []" "lines (axes_of ?st (snd ?axs)) = []"
    by (simp_all add: subplots_axes default_axes_def)
  from plot_room_static [OF assms(3) subplots_axes(1) e, of "room_walls room" mic_pos "room_fs room" init_rir]
  obtain line props where r: "fst ?pr = Inr (line, props)"
    and sp: "static_plot (snd ?pr) ?axs line props"
    and c: "map (\<lambda>p. center (circle_of (snd ?pr) p)) props
              = concat (map (images_of_order src) (py_range (room_max_order room + 1)))"
    and l: "length props = length (filter (\<lambda>k. 0 \<le> k \<and> k \<le> room_max_order room) (orders src))"
    by (elim exE conjE)
  from open_and_plot_ok [OF assms, of w init_rir]
  obtain line' props' where r': "fst ?pr = Inr (line', props')"
    and op': "open_and_plot room idx init_rir w = (Inr (?axs, line', props'), ?w1)"
    by (elim exE conjE)
  from r r' have "line' = line" "props' = props" by simp_all
  with op' have op: "open_and_plot room idx init_rir w = (Inr (?axs, line, props), ?w1)"
    by simp
  have f: "figures ?w1 = figures w @ [\<lparr>fig_axes = ?axs, figsize = (6, 6),
                                height_ratios = [3, 1], tight = False\<rparr>]"
    and fl: "files ?w1 = files w"
    by (simp_all add: subplots_fields)
  have o: "objects ?w1 = snd ?pr" by simp
  show ?thesis
    apply (rule exI [of _ line], rule exI [of _ props], rule exI [of _ ?w1])
    using op sp c l f fl by (simp only: o simp_thms)
qed

lemma static_plot_limits:
  "static_plot (set_ylim a l (set_xlim a l' st)) axs line props = static_plot st axs line props"
  by (simp add: static_plot_def set_xlim_def set_ylim_def)

lemma limits_fields:
  "circle_of (set_ylim a l (set_xlim a l' st)) = circle_of st"
  "xlim (axes_of (set_ylim a l (set_xlim a l' st)) a) = Some l'"
  by (simp_all add: set_xlim_def set_ylim_def)

lemma tight_layout_figures:
  "figures (tight_layout (w\<lparr>figures := fs0 @ [f]\<rparr>)) = fs0 @ [f\<lparr>tight := True\<rparr>]"
  by (cases fs0) (simp_all add: tight_layout_def)


lemma create_animation_run:
  assumes "py_index (mic_positions room) (fst idx) = Inr mic_pos"
    and "py_index (room_sources room) (snd idx) = Inr src"
    and "room_max_order room < 0 \<or> length (orders src) = length (images src)"
    and "g ''room_dim'' = Some dims" and "2 \<le> length dims"
  shows "\<exists>axs line props wx.
     static_plot (objects wx) axs line props \<and>
     map (\<lambda>p. center (circle_of (objects wx) p)) props
       = concat (map (images_of_order src) (py_range (room_max_order room + 1))) \<and>
     length props = length (filter (\<lambda>k. 0 \<le> k \<and> k \<le> room_max_order room) (orders src)) \<and>
     xlim (axes_of (objects wx) (fst axs)) = Some (0, dims ! 0) \<and>
     figures wx = figures w @ [\<lparr>fig_axes = axs, figsize = (6, 6), height_ratios = [3, 1], tight = True\<rparr>] \<and>
     files wx = files w \<and>
     (\<forall>rir filename. create_animation g room rir idx init_rir filename w
                        = export axs line props room rir filename wx)"
proof -
  let ?axs = "fst (subplots w)"
  from open_and_plot_static [OF assms(1-3), of init_rir w]
  obtain line props w1 where
    op: "open_and_plot room idx init_rir w = (Inr (?axs, line, props), w1)"
    and sp: "static_plot (objects w1) ?axs line props"
    and c: "map (\<lambda>p. center (circle_of (objects w1) p)) props
              = concat (map (images_of_order src) (py_range (room_max_order room + 1)))"
    and l: "length props = length (filter (\<lambda>k. 0 \<le> k \<and> k \<le> room_max_order room) (orders src))"
    and f: "figures w1 = figures w @ [\<lparr>fig_axes = ?axs, figsize = (6, 6),
                                height_ratios = [3, 1], tight = False\<rparr>]"
    and fl: "files w1 = files w"
    by (elim exE conjE)
  let ?st0 = "set_ylim (fst ?axs) (0, dims ! 1) (set_xlim (fst ?axs) (0, dims ! 0) (objects w1))"
  let ?wx = "tight_layout (w1\<lparr>objects := ?st0\<rparr>)"
  have o: "objects ?wx = ?st0" by (simp add: tight_layout_fields)
  have 1: "static_plot (objects ?wx) ?axs line props"
    unfolding o static_plot_limits by (rule sp)
  have 2: "map (\<lambda>p. center (circle_of (objects ?wx) p)) props
              = concat (map (images_of_order src) (py_range (room_max_order room + 1)))"
    unfolding o limits_fields by (rule c)
  have 3: "xlim (axes_of (objects ?wx) (fst ?axs)) = Some (0, dims ! 0)"
    unfolding o limits_fields by (rule refl)
  have "w1\<lparr>objects := ?st0\<rparr> = (w1\<lparr>objects := ?st0\<rparr>)\<lparr>figures := figures w @ [\<lparr>fig_axes = ?axs, figsize = (6, 6),
                                height_ratios = [3, 1], tight = False\<rparr>]\<rparr>"
    using f by simp
  then have 4: "figures ?wx = figures w @ [\<lparr>fig_axes = ?axs, figsize = (6, 6),
                                height_ratios = [3, 1], tight = True\<rparr>]"
    using tight_layout_figures [where w = "w1\<lparr>objects := ?st0\<rparr>" and ?fs0.0 = "figures w"
        and f = "\<lparr>fig_axes = ?axs, figsize = (6, 6), height_ratios = [3, 1], tight = False\<rparr>"]
    by simp
  have 5: "files ?wx = files w"
    by (simp add: tight_layout_fields fl)
  have 6: "\<forall>rir filename. create_animation g room rir idx init_rir filename w
                        = export ?axs line props room rir filename ?wx"
    using op assms(4,5) by (simp add: create_animation_ok)
  show ?thesis
    apply (rule exI [of _ ?axs], rule exI [of _ line], rule exI [of _ props], rule exI [of _ ?wx])
    using 1 2 l 3 4 5 6 by (simp only: simp_thms)
qed

lemma demo_facts:
  "py_index (mic_positions demo_room) 0 = Inr (6.316, 3.754)"
  "py_index (room_sources demo_room) 0 = Inr demo_source_1"
  "length (orders demo_source_1) = length (images demo_source_1)"
  "demo_globals ''room_dim'' = Some [10, 6]"
  "other_globals ''room_dim'' = Some [5, 3]"
  "no_globals ''room_dim'' = None"
  "room_fs demo_room = 30"
  "anim_frames demo_room = [0, 1, 2]"
  by (simp_all add: py_index_def demo_room_def demo_source_1_def demo_globals_def other_globals_def
      no_globals_def anim_frames_def py_int_def py_range_def upt_rec)

lemma animate_keeps_xlim:
  "xlim (axes_of (snd (animate n ax l ps rir fs st)) b) = xlim (axes_of st b)"
  by (simp add: animate_def animate_loop_axes)

lemma frame_xlim:
  "map (\<lambda>pic. xlim (fst (fst pic)))
     (map (\<lambda>n. render (snd (animate n (fst axs) line props rir fs
                  (set_ylim (fst axs) (0, h) (set_xlim (fst axs) (0, wd) st)))) axs) ns)
   = map (\<lambda>n. Some (0, wd)) ns"
  by (simp add: render_def panel_def animate_keeps_xlim set_xlim_def set_ylim_def comp_def)

lemma frame_contents:
  assumes "static_plot st axs line props" and "fs \<noteq> 0"
  shows "map radius (fst (snd (fst (render (snd (animate n (fst axs) line props rir fs st)) axs))))
           = replicate (length props) (real_of_int n / fs * 343)"
    and "map center (fst (snd (fst (render (snd (animate n (fst axs) line props rir fs st)) axs))))
           = map (\<lambda>p. center (circle_of st p)) props"
    and "props \<noteq> [] \<Longrightarrow>
         last (snd (snd (snd (render (snd (animate n (fst axs) line props rir fs st)) axs))))
           = \<lparr>xdata = map (\<lambda>k. k / fs) (np_arange n), ydata = slice_to rir n\<rparr>"
    and "xlim (fst (fst (render (snd (animate n (fst axs) line props rir fs st)) axs)))
           = xlim (axes_of st (fst axs))"
    and "map alpha (fst (snd (fst (render (snd (animate n (fst axs) line props rir fs st)) axs))))
           = replicate (length props) (Some (1 - real_of_int n / fs * 10))"
    and "props \<noteq> [] \<Longrightarrow>
         title (fst (fst (render (snd (animate n (fst axs) line props rir fs st)) axs)))
           = animate_title (real_of_int n / fs)"
proof -
  show "map alpha (fst (snd (fst (render (snd (animate n (fst axs) line props rir fs st)) axs))))
           = replicate (length props) (Some (1 - real_of_int n / fs * 10))"
    unfolding frame_circles [OF assms] by (simp add: comp_def map_replicate_const)
  show "props \<noteq> [] \<Longrightarrow>
         title (fst (fst (render (snd (animate n (fst axs) line props rir fs st)) axs)))
           = animate_title (real_of_int n / fs)"
    using assms(2) by (simp add: render_def panel_def animate_def animate_loop_axes)
  show "map radius (fst (snd (fst (render (snd (animate n (fst axs) line props rir fs st)) axs))))
           = replicate (length props) (real_of_int n / fs * 343)"
    unfolding frame_circles [OF assms] by (simp add: comp_def map_replicate_const)
  show "map center (fst (snd (fst (render (snd (animate n (fst axs) line props rir fs st)) axs))))
           = map (\<lambda>p. center (circle_of st p)) props"
    unfolding frame_circles [OF assms] by (simp add: comp_def)
  show "props \<noteq> [] \<Longrightarrow>
         last (snd (snd (snd (render (snd (animate n (fst axs) line props rir fs st)) axs))))
           = \<lparr>xdata = map (\<lambda>k. k / fs) (np_arange n), ydata = slice_to rir n\<rparr>"
    unfolding frame_lines(2) [OF assms] by simp
  show "xlim (fst (fst (render (snd (animate n (fst axs) line props rir fs st)) axs)))
           = xlim (axes_of st (fst axs))"
    by (simp add: render_def panel_def animate_keeps_xlim)
qed

lemma export_success:
  assumes "static_plot (objects w) axs line props"
    and "1 \<le> py_int (0.1 * room_fs room)"
    and "py_int (0.1 * room_fs room) \<le> int (length rir) + 1"
  shows "fst (export axs line props room rir filename w) = Inr ()"
    and "files (snd (export axs line props room rir filename w)) =
           (files w)(filename @ ''.mp4'' \<mapsto>
              \<lparr>writer = ''FFMpegFileWriter'', fps = 60,
               frames = map (\<lambda>n. render (snd (animate n (fst axs) line props rir (room_fs room)
                                                (objects w))) axs) (anim_frames room)\<rparr>)"
    and "figures (snd (export axs line props room rir filename w)) = butlast (figures w)"
proof -
  let ?ok = "frame_drawable axs line props rir (room_fs room) (objects w)"
  from assms(2) have fs: "room_fs room \<noteq> 0"
    by (auto simp: py_int_def)
  from assms(2) have ne: "anim_frames room \<noteq> []"
    using anim_frames_length [of room] by auto
  have "?ok n" if "n \<in> set (anim_frames room)" for n
  proof -
    from that have "0 \<le> n" "n < py_int (0.1 * room_fs room)"
      by (simp_all add: anim_frames_def py_range_mem)
    with assms(3) show ?thesis
      by (intro frame_drawable_within [OF assms(1) fs]) simp_all
  qed
  then have all: "list_all ?ok (anim_frames room)"
    by (simp add: list_all_iff)
  then have tw: "takeWhile ?ok (anim_frames room) = anim_frames room"
    by (simp add: list_all_iff)
  from assms(2) have nn: "0 \<le> py_int (0.1 * room_fs room)" by simp
  show "fst (export axs line props room rir filename w) = Inr ()"
    unfolding export_outcome(1) [OF nn] tw using all ne by simp
  show "files (snd (export axs line props room rir filename w)) =
           (files w)(filename @ ''.mp4'' \<mapsto>
              \<lparr>writer = ''FFMpegFileWriter'', fps = 60,
               frames = map (\<lambda>n. render (snd (animate n (fst axs) line props rir (room_fs room)
                                                (objects w))) axs) (anim_frames room)\<rparr>)"
    unfolding export_outcome(2) [OF nn] tw using ne by simp
  show "figures (snd (export axs line props room rir filename w)) = butlast (figures w)"
    unfolding export_outcome(3) [OF nn] using all ne by simp
qed

lemma create_animation_success:
  assumes "py_index (mic_positions room) (fst idx) = Inr mic_pos"
    and "py_index (room_sources room) (snd idx) = Inr src"
    and "room_max_order room < 0 \<or> length (orders src) = length (images src)"
    and "g ''room_dim'' = Some dims" and "2 \<le> length dims"
    and "1 \<le> py_int (0.1 * room_fs room)"
    and "py_int (0.1 * room_fs room) \<le> int (length rir) + 1"
  shows "\<exists>axs line props st.
     static_plot st axs line props \<and>
     map (\<lambda>p. center (circle_of st p)) props
       = concat (map (images_of_order src) (py_range (room_max_order room + 1))) \<and>
     length props = length (filter (\<lambda>k. 0 \<le> k \<and> k \<le> room_max_order room) (orders src)) \<and>
     xlim (axes_of st (fst axs)) = Some (0, dims ! 0) \<and>
     fst (create_animation g room rir idx init_rir filename w) = Inr () \<and>
     files (snd (create_animation g room rir idx init_rir filename w)) =
       (files w)(filename @ ''.mp4'' \<mapsto>
          \<lparr>writer = ''FFMpegFileWriter'', fps = 60,
           frames = map (\<lambda>n. render (snd (animate n (fst axs) line props rir (room_fs room) st)) axs)
                      (anim_frames room)\<rparr>) \<and>
     figures (snd (create_animation g room rir idx init_rir filename w)) = figures w"
proof -
  from create_animation_run [where g = g and w = w and init_rir = init_rir, OF assms(1-5)]
  obtain axs line props wx where
    sp: "static_plot (objects wx) axs line props"
    and c: "map (\<lambda>p. center (circle_of (objects wx) p)) props
       = concat (map (images_of_order src) (py_range (room_max_order room + 1)))"
    and l: "length props = length (filter (\<lambda>k. 0 \<le> k \<and> k \<le> room_max_order room) (orders src))"
    and x: "xlim (axes_of (objects wx) (fst axs)) = Some (0, dims ! 0)"
    and fg: "figures wx = figures w @ [\<lparr>fig_axes = axs, figsize = (6, 6), height_ratios = [3, 1], tight = True\<rparr>]"
    and fl: "files wx = files w"
    and ca: "\<forall>rir filename. create_animation g room rir idx init_rir filename w
                        = export axs line props room rir filename wx"
    by (elim exE conjE)
  note e = export_success [OF sp assms(6,7), of filename]
  from ca have ca': "create_animation g room rir idx init_rir filename w
                        = export axs line props room rir filename wx"
    by simp
  have 1: "fst (create_animation g room rir idx init_rir filename w) = Inr ()"
    unfolding ca' by (rule e(1))
  have 2: "files (snd (create_animation g room rir idx init_rir filename w)) =
       (files w)(filename @ ''.mp4'' \<mapsto>
          \<lparr>writer = ''FFMpegFileWriter'', fps = 60,
           frames = map (\<lambda>n. render (snd (animate n (fst axs) line props rir (room_fs room) (objects wx))) axs)
                      (anim_frames room)\<rparr>)"
    unfolding ca' e(2) fl by (rule refl)
  have 3: "figures (snd (create_animation g room rir idx init_rir filename w)) = figures w"
    unfolding ca' e(3) fg by simp
  show ?thesis
    apply (rule exI [of _ axs], rule exI [of _ line], rule exI [of _ props], rule exI [of _ "objects wx"])
    using sp c l x 1 2 3 by (simp only: simp_thms)
qed


lemma create_animation_frames:
  assumes "py_index (mic_positions room) (fst idx) = Inr mic_pos"
    and "py_index (room_sources room) (snd idx) = Inr src"
    and "room_max_order room < 0 \<or> length (orders src) = length (images src)"
    and "g ''room_dim'' = Some dims" and "2 \<le> length dims"
    and "1 \<le> py_int (0.1 * room_fs room)"
    and "py_int (0.1 * room_fs room) \<le> int (length rir) + 1"
  shows "\<exists>v.
     fst (create_animation g room rir idx init_rir filename w) = Inr () \<and>
     files (snd (create_animation g room rir idx init_rir filename w))
       = (files w)(filename @ ''.mp4'' \<mapsto> v) \<and>
     figures (snd (create_animation g room rir idx init_rir filename w)) = figures w \<and>
     writer v = ''FFMpegFileWriter'' \<and> fps v = 60 \<and>
     length (frames v) = nat (py_int (0.1 * room_fs room)) \<and>
     (\<forall>k < nat (py_int (0.1 * room_fs room)).
        map radius (fst (snd (fst (frames v ! k))))
          = replicate (length (filter (\<lambda>k. 0 \<le> k \<and> k \<le> room_max_order room) (orders src)))
              (real k / room_fs room * 343) \<and>
        map alpha (fst (snd (fst (frames v ! k))))
          = replicate (length (filter (\<lambda>k. 0 \<le> k \<and> k \<le> room_max_order room) (orders src)))
              (Some (1 - real k / room_fs room * 10)) \<and>
        map center (fst (snd (fst (frames v ! k))))
          = concat (map (images_of_order src) (py_range (room_max_order room + 1))) \<and>
        xlim (fst (fst (frames v ! k))) = Some (0, dims ! 0) \<and>
        (filter (\<lambda>k. 0 \<le> k \<and> k \<le> room_max_order room) (orders src) \<noteq> [] \<longrightarrow>
           last (snd (snd (snd (frames v ! k))))
             = \<lparr>xdata = map (\<lambda>j. real j / room_fs room) [0..<k], ydata = take k rir\<rparr> \<and>
           title (fst (fst (frames v ! k))) = animate_title (real k / room_fs room)))"
proof -
  let ?N = "nat (py_int (0.1 * room_fs room))"
  let ?fs = "room_fs room"
  let ?m = "length (filter (\<lambda>k. 0 \<le> k \<and> k \<le> room_max_order room) (orders src))"
  from create_animation_success [where g = g and w = w and init_rir = init_rir and filename = filename,
      OF assms]
  obtain axs line props st where
    sp: "static_plot st axs line props"
    and c: "map (\<lambda>p. center (circle_of st p)) props
       = concat (map (images_of_order src) (py_range (room_max_order room + 1)))"
    and l: "length props = ?m"
    and x: "xlim (axes_of st (fst axs)) = Some (0, dims ! 0)"
    and 1: "fst (create_animation g room rir idx init_rir filename w) = Inr ()"
    and 2: "files (snd (create_animation g room rir idx init_rir filename w)) =
       (files w)(filename @ ''.mp4'' \<mapsto>
          \<lparr>writer = ''FFMpegFileWriter'', fps = 60,
           frames = map (\<lambda>n. render (snd (animate n (fst axs) line props rir ?fs st)) axs)
                      (anim_frames room)\<rparr>)"
    and 3: "figures (snd (create_animation g room rir idx init_rir filename w)) = figures w"
    by (elim exE conjE)
  let ?v = "\<lparr>writer = ''FFMpegFileWriter'', fps = 60,
           frames = map (\<lambda>n. render (snd (animate n (fst axs) line props rir ?fs st)) axs)
                      (anim_frames room)\<rparr>"
  from assms(6) have fs: "?fs \<noteq> 0"
    by (auto simp: py_int_def)
  have 4: "writer ?v = ''FFMpegFileWriter''" and 5: "fps ?v = 60"
    by simp_all
  have 6: "length (frames ?v) = ?N"
    by (simp add: anim_frames_length)
  have nth: "frames ?v ! k = render (snd (animate (int k) (fst axs) line props rir ?fs st)) axs"
    if "k < ?N" for k
    using that by (simp add: anim_frames_def py_range_def)
  have pe: "props \<noteq> []" if "filter (\<lambda>k. 0 \<le> k \<and> k \<le> room_max_order room) (orders src) \<noteq> []"
    using that l by auto
  note fc = frame_contents [OF sp fs]
  have 7: "\<forall>k < ?N.
        map radius (fst (snd (fst (frames ?v ! k)))) = replicate ?m (real k / ?fs * 343) \<and>
        map alpha (fst (snd (fst (frames ?v ! k)))) = replicate ?m (Some (1 - real k / ?fs * 10)) \<and>
        map center (fst (snd (fst (frames ?v ! k))))
          = concat (map (images_of_order src) (py_range (room_max_order room + 1))) \<and>
        xlim (fst (fst (frames ?v ! k))) = Some (0, dims ! 0) \<and>
        (filter (\<lambda>k. 0 \<le> k \<and> k \<le> room_max_order room) (orders src) \<noteq> [] \<longrightarrow>
           last (snd (snd (snd (frames ?v ! k))))
             = \<lparr>xdata = map (\<lambda>j. real j / ?fs) [0..<k], ydata = take k rir\<rparr> \<and>
           title (fst (fst (frames ?v ! k))) = animate_title (real k / ?fs))"
  proof (intro allI impI conjI)
    fix k assume k: "k < ?N"
    show "map radius (fst (snd (fst (frames ?v ! k)))) = replicate ?m (real k / ?fs * 343)"
      unfolding nth [OF k] fc(1) l by simp
    show "map alpha (fst (snd (fst (frames ?v ! k)))) = replicate ?m (Some (1 - real k / ?fs * 10))"
      unfolding nth [OF k] fc(5) l by simp
    show "map center (fst (snd (fst (frames ?v ! k))))
          = concat (map (images_of_order src) (py_range (room_max_order room + 1)))"
      unfolding nth [OF k] fc(2) by (rule c)
    show "xlim (fst (fst (frames ?v ! k))) = Some (0, dims ! 0)"
      unfolding nth [OF k] fc(4) by (rule x)
    assume "filter (\<lambda>k. 0 \<le> k \<and> k \<le> room_max_order room) (orders src) \<noteq> []"
    then have p: "props \<noteq> []" by (rule pe)
    show "last (snd (snd (snd (frames ?v ! k))))
             = \<lparr>xdata = map (\<lambda>j. real j / ?fs) [0..<k], ydata = take k rir\<rparr>"
      unfolding nth [OF k] fc(3) [OF p] by (simp add: np_arange_def slice_to_def comp_def)
    show "title (fst (fst (frames ?v ! k))) = animate_title (real k / ?fs)"
      unfolding nth [OF k] fc(6) [OF p] by simp
  qed
  show ?thesis
    apply (rule exI [of _ ?v])
    using 1 2 3 4 5 6 7 by (simp only: simp_thms)
qed


lemma create_animation_outcome:
  assumes "py_index (mic_positions room) (fst idx) = Inr mic_pos"
    and "py_index (room_sources room) (snd idx) = Inr src"
    and "room_max_order room < 0 \<or> length (orders src) = length (images src)"
    and "g ''room_dim'' = Some dims" and "2 \<le> length dims"
    and "0 \<le> py_int (0.1 * room_fs room)" and "room_fs room \<noteq> 0"
    and "filter (\<lambda>k. 0 \<le> k \<and> k \<le> room_max_order room) (orders src) \<noteq> []"
  shows "fst (create_animation g room rir idx init_rir filename w) =
           (if takeWhile (\<lambda>n. broadcastable (nat n) (length (slice_to rir n))) (anim_frames room) = []
            then Inl CalledProcessError
            else if list_all (\<lambda>n. broadcastable (nat n) (length (slice_to rir n))) (anim_frames room)
            then Inr () else Inl ValueError)"
    and "map_option (\<lambda>v. length (frames v))
           (files (snd (create_animation g room rir idx init_rir filename w)) (filename @ ''.mp4'')) =
           (if takeWhile (\<lambda>n. broadcastable (nat n) (length (slice_to rir n))) (anim_frames room) = []
            then map_option (\<lambda>v. length (frames v)) (files w (filename @ ''.mp4''))
            else Some (length (takeWhile (\<lambda>n. broadcastable (nat n) (length (slice_to rir n)))
                                 (anim_frames room))))"
    and "length (figures (snd (create_animation g room rir idx init_rir filename w))) =
           (if list_all (\<lambda>n. broadcastable (nat n) (length (slice_to rir n))) (anim_frames room)
               \<and> anim_frames room \<noteq> []
            then length (figures w) else Suc (length (figures w)))"
proof -
  from create_animation_run [where g = g and w = w and init_rir = init_rir, OF assms(1-5)]
  obtain axs line props wx where
    sp: "static_plot (objects wx) axs line props"
    and l: "length props = length (filter (\<lambda>k. 0 \<le> k \<and> k \<le> room_max_order room) (orders src))"
    and fg: "figures wx = figures w @ [\<lparr>fig_axes = axs, figsize = (6, 6), height_ratios = [3, 1], tight = True\<rparr>]"
    and fl: "files wx = files w"
    and ca: "\<forall>rir filename. create_animation g room rir idx init_rir filename w
                        = export axs line props room rir filename wx"
    by (elim exE conjE)
  from ca have ca': "create_animation g room rir idx init_rir filename w
                        = export axs line props room rir filename wx"
    by simp
  from l assms(8) have p: "props \<noteq> []" by auto
  have ok: "frame_drawable axs line props rir (room_fs room) (objects wx)
              = (\<lambda>n. broadcastable (nat n) (length (slice_to rir n)))"
    by (simp add: fun_eq_iff frame_drawable_iff [OF sp assms(7)] p)
  note e = export_outcome [OF assms(6), of axs line props rir filename wx, unfolded ok]
  show "fst (create_animation g room rir idx init_rir filename w) =
           (if takeWhile (\<lambda>n. broadcastable (nat n) (length (slice_to rir n))) (anim_frames room) = []
            then Inl CalledProcessError
            else if list_all (\<lambda>n. broadcastable (nat n) (length (slice_to rir n))) (anim_frames room)
            then Inr () else Inl ValueError)"
    unfolding ca' by (rule e(1))
  show "map_option (\<lambda>v. length (frames v))
           (files (snd (create_animation g room rir idx init_rir filename w)) (filename @ ''.mp4'')) =
           (if takeWhile (\<lambda>n. broadcastable (nat n) (length (slice_to rir n))) (anim_frames room) = []
            then map_option (\<lambda>v. length (frames v)) (files w (filename @ ''.mp4''))
            else Some (length (takeWhile (\<lambda>n. broadcastable (nat n) (length (slice_to rir n)))
                                 (anim_frames room))))"
    unfolding ca' e(2) fl by simp
  show "length (figures (snd (create_animation g room rir idx init_rir filename w))) =
           (if list_all (\<lambda>n. broadcastable (nat n) (length (slice_to rir n))) (anim_frames room)
               \<and> anim_frames room \<noteq> []
            then length (figures w) else Suc (length (figures w)))"
    unfolding ca' e(3) fg by simp
qed

lemma more_demo_facts:
  "room_fs five_frame_room = 50" "anim_frames five_frame_room = [0, 1, 2, 3, 4]"
  "room_fs no_frame_room = 9" "anim_frames no_frame_room = []"
  "py_int (0.1 * room_fs five_frame_room) = 5" "py_int (0.1 * room_fs no_frame_room) = 0"
  "py_int (0.1 * room_fs demo_room) = 3"
  "mic_positions five_frame_room = mic_positions demo_room"
  "room_sources five_frame_room = room_sources demo_room"
  "room_max_order five_frame_room = 1"
  "mic_positions no_frame_room = mic_positions demo_room"
  "room_sources no_frame_room = room_sources demo_room"
  "room_max_order no_frame_room = 1" "room_max_order demo_room = 1"
  "filter (\<lambda>k. 0 \<le> k \<and> k \<le> 1) (orders demo_source_1) = [0, 1, 1, 1, 1]"
  "length demo_rir = 5" "length short_rir = 2"
  by (simp_all add: five_frame_room_def no_frame_room_def demo_room_def anim_frames_def py_int_def
      py_range_def upt_rec demo_source_1_def demo_rir_def short_rir_def)

text \<open>
  Claim C3, as amended. Let \<open>N\<close> be \<open>int(0.1 * room.fs)\<close>, the product taken exactly. If the
  microphone and the source are found, \<^verbatim>\<open>plot_room\<close> returns, \<^verbatim>\<open>room_dim\<close> is bound to at
  least two numbers, \<open>N \<ge> 1\<close> and \<^verbatim>\<open>rir\<close> has at least \<open>N - 1\<close> samples, then
  \<^verbatim>\<open>create_animation\<close> returns normally and the video it has written has exactly \<open>N\<close>
  frames, whatever \<^verbatim>\<open>init_rir\<close> is. Frame \<open>k\<close>, for \<open>0 \<le> k < N\<close>, is the figure after
  \<^verbatim>\<open>animate(k, ...)\<close>: every circle, centred at its image source, has the radius
  \<open>(k / fs) * 343\<close>, and when there is a circle the line shows the first \<open>k\<close> samples of
  \<^verbatim>\<open>rir\<close> against the times \<open>j / fs\<close> and the title is the one for the time \<open>k / fs\<close>.
\<close>

theorem create_animation_frame_count:
  assumes "py_index (mic_positions room) (fst src_recv_idx) = Inr mic_pos"
    and "py_index (room_sources room) (snd src_recv_idx) = Inr im_sources"
    and "room_max_order room < 0 \<or> length (orders im_sources) = length (images im_sources)"
    and "g ''room_dim'' = Some room_dim" and "2 \<le> length room_dim"
    and "1 \<le> py_int (0.1 * room_fs room)"
    and "py_int (0.1 * room_fs room) \<le> int (length rir) + 1"
  shows "fst (create_animation g room rir src_recv_idx init_rir filename w) = Inr () \<and>
     (\<exists>v. files (snd (create_animation g room rir src_recv_idx init_rir filename w)) (filename @ ''.mp4'')
            = Some v \<and>
        length (frames v) = nat (py_int (0.1 * room_fs room)) \<and>
        (\<forall>k < nat (py_int (0.1 * room_fs room)).
           map radius (fst (snd (fst (frames v ! k))))
             = replicate (length (filter (\<lambda>k. 0 \<le> k \<and> k \<le> room_max_order room) (orders im_sources)))
                 (real k / room_fs room * 343) \<and>
           map center (fst (snd (fst (frames v ! k))))
             = concat (map (images_of_order im_sources) (py_range (room_max_order room + 1))) \<and>
           (filter (\<lambda>k. 0 \<le> k \<and> k \<le> room_max_order room) (orders im_sources) \<noteq> [] \<longrightarrow>
              last (snd (snd (snd (frames v ! k))))
                = \<lparr>xdata = map (\<lambda>j. real j / room_fs room) [0..<k], ydata = take k rir\<rparr> \<and>
              title (fst (fst (frames v ! k))) = animate_title (real k / room_fs room))))"
proof -
  from create_animation_frames [where g = g and w = w and init_rir = init_rir and filename = filename,
      OF assms]
  obtain v where
    ok: "fst (create_animation g room rir src_recv_idx init_rir filename w) = Inr ()"
    and f: "files (snd (create_animation g room rir src_recv_idx init_rir filename w))
       = (files w)(filename @ ''.mp4'' \<mapsto> v)"
    and len: "length (frames v) = nat (py_int (0.1 * room_fs room))"
    and fr: "\<forall>k < nat (py_int (0.1 * room_fs room)).
        map radius (fst (snd (fst (frames v ! k))))
          = replicate (length (filter (\<lambda>k. 0 \<le> k \<and> k \<le> room_max_order room) (orders im_sources)))
              (real k / room_fs room * 343) \<and>
        map alpha (fst (snd (fst (frames v ! k))))
          = replicate (length (filter (\<lambda>k. 0 \<le> k \<and> k \<le> room_max_order room) (orders im_sources)))
              (Some (1 - real k / room_fs room * 10)) \<and>
        map center (fst (snd (fst (frames v ! k))))
          = concat (map (images_of_order im_sources) (py_range (room_max_order room + 1))) \<and>
        xlim (fst (fst (frames v ! k))) = Some (0, room_dim ! 0) \<and>
        (filter (\<lambda>k. 0 \<le> k \<and> k \<le> room_max_order room) (orders im_sources) \<noteq> [] \<longrightarrow>
           last (snd (snd (snd (frames v ! k))))
             = \<lparr>xdata = map (\<lambda>j. real j / room_fs room) [0..<k], ydata = take k rir\<rparr> \<and>
           title (fst (fst (frames v ! k))) = animate_title (real k / room_fs room))"
    by (elim exE conjE)
  from f have f': "files (snd (create_animation g room rir src_recv_idx init_rir filename w))
       (filename @ ''.mp4'') = Some v"
    by simp
  have fr': "\<forall>k < nat (py_int (0.1 * room_fs room)).
           map radius (fst (snd (fst (frames v ! k))))
             = replicate (length (filter (\<lambda>k. 0 \<le> k \<and> k \<le> room_max_order room) (orders im_sources)))
                 (real k / room_fs room * 343) \<and>
           map center (fst (snd (fst (frames v ! k))))
             = concat (map (images_of_order im_sources) (py_range (room_max_order room + 1))) \<and>
           (filter (\<lambda>k. 0 \<le> k \<and> k \<le> room_max_order room) (orders im_sources) \<noteq> [] \<longrightarrow>
              last (snd (snd (snd (frames v ! k))))
                = \<lparr>xdata = map (\<lambda>j. real j / room_fs room) [0..<k], ydata = take k rir\<rparr> \<and>
              title (fst (fst (frames v ! k))) = animate_title (real k / room_fs room))"
  proof (intro allI impI)
    fix k assume k: "k < nat (py_int (0.1 * room_fs room))"
    note f = fr [rule_format, OF k]
    show "map radius (fst (snd (fst (frames v ! k))))
             = replicate (length (filter (\<lambda>k. 0 \<le> k \<and> k \<le> room_max_order room) (orders im_sources)))
                 (real k / room_fs room * 343) \<and>
           map center (fst (snd (fst (frames v ! k))))
             = concat (map (images_of_order im_sources) (py_range (room_max_order room + 1))) \<and>
           (filter (\<lambda>k. 0 \<le> k \<and> k \<le> room_max_order room) (orders im_sources) \<noteq> [] \<longrightarrow>
              last (snd (snd (snd (frames v ! k))))
                = \<lparr>xdata = map (\<lambda>j. real j / room_fs room) [0..<k], ydata = take k rir\<rparr> \<and>
              title (fst (fst (frames v ! k))) = animate_title (real k / room_fs room))"
      by (rule conjI [OF f [THEN conjunct1]
            conjI [OF f [THEN conjunct2, THEN conjunct2, THEN conjunct1]
              f [THEN conjunct2, THEN conjunct2, THEN conjunct2, THEN conjunct2]]])
  qed
  show ?thesis
    apply (rule conjI [OF ok])
    apply (rule exI [of _ v])
    using f' len fr' by (simp only: simp_thms)
qed

theorem create_animation_frame_count_witness:
  "py_index (mic_positions demo_room) (fst (0 :: int, 0 :: int)) = Inr (6.316, 3.754) \<and>
   py_index (room_sources demo_room) (snd (0 :: int, 0 :: int)) = Inr demo_source_1 \<and>
   length (orders demo_source_1) = length (images demo_source_1) \<and>
   demo_globals ''room_dim'' = Some [10, 6] \<and> 2 \<le> length [10, 6 :: real] \<and>
   1 \<le> py_int (0.1 * room_fs demo_room) \<and>
   py_int (0.1 * room_fs demo_room) \<le> int (length demo_rir) + 1 \<and>
   fst (create_animation demo_globals demo_room demo_rir (0, 0) [] ''ism_anim'' empty_world) = Inr () \<and>
   (\<exists>v. files (snd (create_animation demo_globals demo_room demo_rir (0, 0) [] ''ism_anim'' empty_world))
           ''ism_anim.mp4'' = Some v \<and>
        length (frames v) = 3 \<and>
        map radius (fst (snd (fst (frames v ! 2)))) = [343 / 15, 343 / 15, 343 / 15, 343 / 15, 343 / 15] \<and>
        map center (fst (snd (fst (frames v ! 2)))) = [(2, 4), (-2, 4), (18, 4), (2, -4), (2, 8)] \<and>
        last (snd (snd (snd (frames v ! 2)))) = \<lparr>xdata = [0, 1 / 30], ydata = [0, 0.2]\<rparr>)"
proof -
  have n: "1 \<le> py_int (0.1 * room_fs demo_room)"
    "py_int (0.1 * room_fs demo_room) \<le> int (length demo_rir) + 1"
    unfolding more_demo_facts by simp_all
  have ok: "room_max_order demo_room < 0 \<or> length (orders demo_source_1) = length (images demo_source_1)"
    by (simp add: demo_facts)
  have i: "py_index (mic_positions demo_room) (fst (0 :: int, 0 :: int)) = Inr (6.316, 3.754)"
    "py_index (room_sources demo_room) (snd (0 :: int, 0 :: int)) = Inr demo_source_1"
    by (simp_all add: demo_facts)
  have g: "demo_globals ''room_dim'' = Some [10, 6]" "2 \<le> length [10, 6 :: real]"
    by (simp_all add: demo_facts)
  have c: "concat (map (images_of_order demo_source_1) (py_range (room_max_order demo_room + 1)))
             = [(2, 4), (-2, 4), (18, 4), (2, -4), (2, 8)]"
    by (simp add: more_demo_facts py_range_def upt_rec images_of_order_def demo_source_1_def)
  have u: "[0..<2] = [0, Suc 0]" by code_simp
  from create_animation_frame_count [where g = demo_globals and rir = demo_rir and init_rir = "[]"
      and filename = "''ism_anim''" and w = empty_world, OF i ok g n]
  obtain v where
    r: "fst (create_animation demo_globals demo_room demo_rir (0, 0) [] ''ism_anim'' empty_world) = Inr ()"
    and f: "files (snd (create_animation demo_globals demo_room demo_rir (0, 0) [] ''ism_anim'' empty_world))
           (''ism_anim'' @ ''.mp4'') = Some v"
    and len: "length (frames v) = nat (py_int (0.1 * room_fs demo_room))"
    and fr: "\<forall>k < nat (py_int (0.1 * room_fs demo_room)).
           map radius (fst (snd (fst (frames v ! k))))
             = replicate (length (filter (\<lambda>k. 0 \<le> k \<and> k \<le> room_max_order demo_room) (orders demo_source_1)))
                 (real k / room_fs demo_room * 343) \<and>
           map center (fst (snd (fst (frames v ! k))))
             = concat (map (images_of_order demo_source_1) (py_range (room_max_order demo_room + 1))) \<and>
           (filter (\<lambda>k. 0 \<le> k \<and> k \<le> room_max_order demo_room) (orders demo_source_1) \<noteq> [] \<longrightarrow>
              last (snd (snd (snd (frames v ! k))))
                = \<lparr>xdata = map (\<lambda>j. real j / room_fs demo_room) [0..<k], ydata = take k demo_rir\<rparr> \<and>
              title (fst (fst (frames v ! k))) = animate_title (real k / room_fs demo_room))"
    by (elim exE conjE)
  have two: "2 < nat (py_int (0.1 * room_fs demo_room))"
    unfolding more_demo_facts by simp
  note f2 = fr [rule_format, OF two]
  from f have 1: "files (snd (create_animation demo_globals demo_room demo_rir (0, 0) [] ''ism_anim'' empty_world))
           ''ism_anim.mp4'' = Some v"
    by simp
  from len have 2: "length (frames v) = 3"
    unfolding more_demo_facts by simp
  from f2 have 3: "map radius (fst (snd (fst (frames v ! 2)))) = [343 / 15, 343 / 15, 343 / 15, 343 / 15, 343 / 15]"
    by (simp add: more_demo_facts demo_facts(7))
  from f2 have 4: "map center (fst (snd (fst (frames v ! 2)))) = [(2, 4), (-2, 4), (18, 4), (2, -4), (2, 8)]"
    unfolding c by simp
  from f2 have 5: "last (snd (snd (snd (frames v ! 2)))) = \<lparr>xdata = [0, 1 / 30], ydata = [0, 0.2]\<rparr>"
    by (simp add: more_demo_facts demo_facts(7) u demo_rir_def)
  have "\<exists>v. files (snd (create_animation demo_globals demo_room demo_rir (0, 0) [] ''ism_anim'' empty_world))
           ''ism_anim.mp4'' = Some v \<and>
        length (frames v) = 3 \<and>
        map radius (fst (snd (fst (frames v ! 2)))) = [343 / 15, 343 / 15, 343 / 15, 343 / 15, 343 / 15] \<and>
        map center (fst (snd (fst (frames v ! 2)))) = [(2, 4), (-2, 4), (18, 4), (2, -4), (2, 8)] \<and>
        last (snd (snd (snd (frames v ! 2)))) = \<lparr>xdata = [0, 1 / 30], ydata = [0, 0.2]\<rparr>"
    apply (rule exI [of _ v])
    using 1 2 3 4 5 by (simp only: simp_thms)
  with i demo_facts(3) g n r show ?thesis by (simp only: simp_thms)
qed

text \<open>
  Claim C3 as stated, for every room and every \<^verbatim>\<open>rir\<close>, does not hold: the frames that are
  made depend on the length of \<^verbatim>\<open>rir\<close>. At the rate 50 the frame count is 5. With a
  response of two samples, frame 3 has three time points against two samples, drawing it
  raises \<^verbatim>\<open>ValueError\<close>, and the file holds the three frames grabbed before. With the
  response of five samples the same call returns normally and the file holds five frames.
\<close>

theorem create_animation_frame_count_short_rir:
  "py_int (0.1 * room_fs five_frame_room) = 5 \<and>
   fst (create_animation demo_globals five_frame_room short_rir (0, 0) [] ''ism_anim'' empty_world)
     = Inl ValueError \<and>
   map_option (\<lambda>v. length (frames v))
     (files (snd (create_animation demo_globals five_frame_room short_rir (0, 0) [] ''ism_anim''
                    empty_world)) ''ism_anim.mp4'') = Some 3 \<and>
   fst (create_animation demo_globals five_frame_room demo_rir (0, 0) [] ''ism_anim'' empty_world)
     = Inr () \<and>
   map_option (\<lambda>v. length (frames v))
     (files (snd (create_animation demo_globals five_frame_room demo_rir (0, 0) [] ''ism_anim''
                    empty_world)) ''ism_anim.mp4'') = Some 5"
proof -
  have i: "py_index (mic_positions five_frame_room) (fst (0 :: int, 0 :: int)) = Inr (6.316, 3.754)"
    "py_index (room_sources five_frame_room) (snd (0 :: int, 0 :: int)) = Inr demo_source_1"
    by (simp_all add: demo_facts more_demo_facts)
  have ok: "room_max_order five_frame_room < 0 \<or> length (orders demo_source_1) = length (images demo_source_1)"
    by (simp add: demo_facts)
  have g: "demo_globals ''room_dim'' = Some [10, 6]" "2 \<le> length [10, 6 :: real]"
    by (simp_all add: demo_facts)
  have n: "0 \<le> py_int (0.1 * room_fs five_frame_room)" "room_fs five_frame_room \<noteq> 0"
    "filter (\<lambda>k. 0 \<le> k \<and> k \<le> room_max_order five_frame_room) (orders demo_source_1) \<noteq> []"
    by (simp_all add: more_demo_facts py_int_def)
  note o = create_animation_outcome [where g = demo_globals and init_rir = "[]"
      and filename = "''ism_anim''" and w = empty_world, OF i ok g n]
  have short: "takeWhile (\<lambda>n. broadcastable (nat n) (length (slice_to short_rir n))) [0, 1, 2, 3, 4]
                 = [0, 1, 2]"
    "list_all (\<lambda>n. broadcastable (nat n) (length (slice_to short_rir n))) [0, 1, 2, 3, 4] = False"
    by (simp_all add: broadcastable_def slice_to_def short_rir_def)
  have long: "takeWhile (\<lambda>n. broadcastable (nat n) (length (slice_to demo_rir n))) [0, 1, 2, 3, 4]
                 = [0, 1, 2, 3, 4]"
    "list_all (\<lambda>n. broadcastable (nat n) (length (slice_to demo_rir n))) [0, 1, 2, 3, 4] = True"
    by (simp_all add: broadcastable_def slice_to_def demo_rir_def)
  have 1: "fst (create_animation demo_globals five_frame_room short_rir (0, 0) [] ''ism_anim'' empty_world)
     = Inl ValueError"
    unfolding o(1) more_demo_facts(2) short by simp
  have 2: "map_option (\<lambda>v. length (frames v))
     (files (snd (create_animation demo_globals five_frame_room short_rir (0, 0) [] ''ism_anim''
                    empty_world)) (''ism_anim'' @ ''.mp4'')) = Some 3"
    unfolding o(2) more_demo_facts(2) short by simp
  have 3: "fst (create_animation demo_globals five_frame_room demo_rir (0, 0) [] ''ism_anim'' empty_world)
     = Inr ()"
    unfolding o(1) more_demo_facts(2) long by simp
  have 4: "map_option (\<lambda>v. length (frames v))
     (files (snd (create_animation demo_globals five_frame_room demo_rir (0, 0) [] ''ism_anim''
                    empty_world)) (''ism_anim'' @ ''.mp4'')) = Some 5"
    unfolding o(2) more_demo_facts(2) long by simp
  from 2 4 have 5: "map_option (\<lambda>v. length (frames v))
     (files (snd (create_animation demo_globals five_frame_room short_rir (0, 0) [] ''ism_anim''
                    empty_world)) ''ism_anim.mp4'') = Some 3"
    "map_option (\<lambda>v. length (frames v))
     (files (snd (create_animation demo_globals five_frame_room demo_rir (0, 0) [] ''ism_anim''
                    empty_world)) ''ism_anim.mp4'') = Some 5"
    by simp_all
  from 1 3 5 more_demo_facts(5) show ?thesis by (simp only: simp_thms)
qed

text \<open>
  Claim C9, as amended. Let \<open>N\<close> be \<open>int(0.1 * room.fs)\<close>, the product taken exactly. If the
  microphone and the source are found, \<^verbatim>\<open>plot_room\<close> returns, \<^verbatim>\<open>room_dim\<close> is bound to at
  least two numbers, \<open>N \<ge> 1\<close> and \<^verbatim>\<open>rir\<close> has at least \<open>N - 1\<close> samples, then
  \<^verbatim>\<open>create_animation\<close> returns normally, having written the animation to the file named
  \<^verbatim>\<open>filename\<close> followed by \<^verbatim>\<open>.mp4\<close> and to no other file, through the FFMpeg file writer at
  60 frames per second, and having closed the figure it opened. The file holds the \<open>N\<close>
  frames of the animation: in frame \<open>k\<close> every circle has the radius \<open>(k / fs) * 343\<close> and
  the view of the room is limited to \<^verbatim>\<open>room_dim[0]\<close>. With the defaults of the signature
  the file is \<^verbatim>\<open>ism_anim.mp4\<close>.
\<close>

theorem create_animation_exports_mp4:
  assumes "py_index (mic_positions room) (fst src_recv_idx) = Inr mic_pos"
    and "py_index (room_sources room) (snd src_recv_idx) = Inr im_sources"
    and "room_max_order room < 0 \<or> length (orders im_sources) = length (images im_sources)"
    and "g ''room_dim'' = Some room_dim" and "2 \<le> length room_dim"
    and "1 \<le> py_int (0.1 * room_fs room)"
    and "py_int (0.1 * room_fs room) \<le> int (length rir) + 1"
  shows "fst (create_animation g room rir src_recv_idx init_rir filename w) = Inr () \<and>
     (\<exists>v. files (snd (create_animation g room rir src_recv_idx init_rir filename w))
             = (files w)(filename @ ''.mp4'' \<mapsto> v) \<and>
          writer v = ''FFMpegFileWriter'' \<and> fps v = 60 \<and>
          length (frames v) = nat (py_int (0.1 * room_fs room)) \<and>
          (\<forall>k < nat (py_int (0.1 * room_fs room)).
             map radius (fst (snd (fst (frames v ! k))))
               = replicate (length (filter (\<lambda>k. 0 \<le> k \<and> k \<le> room_max_order room) (orders im_sources)))
                   (real k / room_fs room * 343) \<and>
             xlim (fst (fst (frames v ! k))) = Some (0, room_dim ! 0))) \<and>
     figures (snd (create_animation g room rir src_recv_idx init_rir filename w)) = figures w \<and>
     (src_recv_idx = (0, 0) \<longrightarrow>
        fst (create_animation_defaults g room rir w) = Inr () \<and>
        (\<exists>v. files (snd (create_animation_defaults g room rir w))
                = (files w)(''ism_anim.mp4'' \<mapsto> v) \<and>
             writer v = ''FFMpegFileWriter'' \<and> fps v = 60 \<and>
             length (frames v) = nat (py_int (0.1 * room_fs room))) \<and>
        figures (snd (create_animation_defaults g room rir w)) = figures w)"
proof -
  have run: "fst (create_animation g room rir src_recv_idx i name w) = Inr () \<and>
     (\<exists>v. files (snd (create_animation g room rir src_recv_idx i name w))
             = (files w)(name @ ''.mp4'' \<mapsto> v) \<and>
          writer v = ''FFMpegFileWriter'' \<and> fps v = 60 \<and>
          length (frames v) = nat (py_int (0.1 * room_fs room)) \<and>
          (\<forall>k < nat (py_int (0.1 * room_fs room)).
             map radius (fst (snd (fst (frames v ! k))))
               = replicate (length (filter (\<lambda>k. 0 \<le> k \<and> k \<le> room_max_order room) (orders im_sources)))
                   (real k / room_fs room * 343) \<and>
             xlim (fst (fst (frames v ! k))) = Some (0, room_dim ! 0))) \<and>
     figures (snd (create_animation g room rir src_recv_idx i name w)) = figures w" for i name
  proof -
    from create_animation_frames [where g = g and w = w and init_rir = i and filename = name,
        OF assms]
    obtain v where
      ok: "fst (create_animation g room rir src_recv_idx i name w) = Inr ()"
      and f: "files (snd (create_animation g room rir src_recv_idx i name w))
         = (files w)(name @ ''.mp4'' \<mapsto> v)"
      and fig: "figures (snd (create_animation g room rir src_recv_idx i name w)) = figures w"
      and wr: "writer v = ''FFMpegFileWriter''" and fp: "fps v = 60"
      and len: "length (frames v) = nat (py_int (0.1 * room_fs room))"
      and fr: "\<forall>k < nat (py_int (0.1 * room_fs room)).
          map radius (fst (snd (fst (frames v ! k))))
            = replicate (length (filter (\<lambda>k. 0 \<le> k \<and> k \<le> room_max_order room) (orders im_sources)))
                (real k / room_fs room * 343) \<and>
          map alpha (fst (snd (fst (frames v ! k))))
            = replicate (length (filter (\<lambda>k. 0 \<le> k \<and> k \<le> room_max_order room) (orders im_sources)))
                (Some (1 - real k / room_fs room * 10)) \<and>
          map center (fst (snd (fst (frames v ! k))))
            = concat (map (images_of_order im_sources) (py_range (room_max_order room + 1))) \<and>
          xlim (fst (fst (frames v ! k))) = Some (0, room_dim ! 0) \<and>
          (filter (\<lambda>k. 0 \<le> k \<and> k \<le> room_max_order room) (orders im_sources) \<noteq> [] \<longrightarrow>
             last (snd (snd (snd (frames v ! k))))
               = \<lparr>xdata = map (\<lambda>j. real j / room_fs room) [0..<k], ydata = take k rir\<rparr> \<and>
             title (fst (fst (frames v ! k))) = animate_title (real k / room_fs room))"
      by (elim exE conjE)
    have fr': "\<forall>k < nat (py_int (0.1 * room_fs room)).
             map radius (fst (snd (fst (frames v ! k))))
               = replicate (length (filter (\<lambda>k. 0 \<le> k \<and> k \<le> room_max_order room) (orders im_sources)))
                   (real k / room_fs room * 343) \<and>
             xlim (fst (fst (frames v ! k))) = Some (0, room_dim ! 0)"
    proof (intro allI impI)
      fix k assume k: "k < nat (py_int (0.1 * room_fs room))"
      note f = fr [rule_format, OF k]
      show "map radius (fst (snd (fst (frames v ! k))))
               = replicate (length (filter (\<lambda>k. 0 \<le> k \<and> k \<le> room_max_order room) (orders im_sources)))
                   (real k / room_fs room * 343) \<and>
             xlim (fst (fst (frames v ! k))) = Some (0, room_dim ! 0)"
        by (rule conjI [OF f [THEN conjunct1]
              f [THEN conjunct2, THEN conjunct2, THEN conjunct2, THEN conjunct1]])
    qed
    have "\<exists>v. files (snd (create_animation g room rir src_recv_idx i name w))
             = (files w)(name @ ''.mp4'' \<mapsto> v) \<and>
          writer v = ''FFMpegFileWriter'' \<and> fps v = 60 \<and>
          length (frames v) = nat (py_int (0.1 * room_fs room)) \<and>
          (\<forall>k < nat (py_int (0.1 * room_fs room)).
             map radius (fst (snd (fst (frames v ! k))))
               = replicate (length (filter (\<lambda>k. 0 \<le> k \<and> k \<le> room_max_order room) (orders im_sources)))
                   (real k / room_fs room * 343) \<and>
             xlim (fst (fst (frames v ! k))) = Some (0, room_dim ! 0))"
      apply (rule exI [of _ v])
      using f wr fp len fr' by (simp only: simp_thms)
    with ok fig show ?thesis by (simp only: simp_thms)
  qed
  have name: "''ism_anim'' @ ''.mp4'' = ''ism_anim.mp4''" by simp
  from run [of "[]" "''ism_anim''"]
  obtain v where
    ok: "fst (create_animation g room rir src_recv_idx [] ''ism_anim'' w) = Inr ()"
    and f: "files (snd (create_animation g room rir src_recv_idx [] ''ism_anim'' w))
         = (files w)(''ism_anim'' @ ''.mp4'' \<mapsto> v)"
    and wr: "writer v = ''FFMpegFileWriter''" and fp: "fps v = 60"
    and len: "length (frames v) = nat (py_int (0.1 * room_fs room))"
    and fig: "figures (snd (create_animation g room rir src_recv_idx [] ''ism_anim'' w)) = figures w"
    by (elim exE conjE)
  have d: "\<exists>v. files (snd (create_animation g room rir src_recv_idx [] ''ism_anim'' w))
                = (files w)(''ism_anim.mp4'' \<mapsto> v) \<and>
             writer v = ''FFMpegFileWriter'' \<and> fps v = 60 \<and>
             length (frames v) = nat (py_int (0.1 * room_fs room))"
    apply (rule exI [of _ v])
    using f wr fp len unfolding name by (simp only: simp_thms)
  have "src_recv_idx = (0, 0) \<longrightarrow>
        fst (create_animation_defaults g room rir w) = Inr () \<and>
        (\<exists>v. files (snd (create_animation_defaults g room rir w))
                = (files w)(''ism_anim.mp4'' \<mapsto> v) \<and>
             writer v = ''FFMpegFileWriter'' \<and> fps v = 60 \<and>
             length (frames v) = nat (py_int (0.1 * room_fs room))) \<and>
        figures (snd (create_animation_defaults g room rir w)) = figures w"
  proof
    assume z: "src_recv_idx = (0, 0)"
    from ok d fig show "fst (create_animation_defaults g room rir w) = Inr () \<and>
        (\<exists>v. files (snd (create_animation_defaults g room rir w))
                = (files w)(''ism_anim.mp4'' \<mapsto> v) \<and>
             writer v = ''FFMpegFileWriter'' \<and> fps v = 60 \<and>
             length (frames v) = nat (py_int (0.1 * room_fs room))) \<and>
        figures (snd (create_animation_defaults g room rir w)) = figures w"
      unfolding create_animation_defaults_def z by (simp only: simp_thms)
  qed
  with run [of init_rir filename] show ?thesis by (simp only: simp_thms)
qed

theorem create_animation_exports_mp4_witness:
  "py_index (mic_positions demo_room) (fst (0 :: int, 0 :: int)) = Inr (6.316, 3.754) \<and>
   py_index (room_sources demo_room) (snd (0 :: int, 0 :: int)) = Inr demo_source_1 \<and>
   length (orders demo_source_1) = length (images demo_source_1) \<and>
   demo_globals ''room_dim'' = Some [10, 6] \<and> 2 \<le> length [10, 6 :: real] \<and>
   1 \<le> py_int (0.1 * room_fs demo_room) \<and>
   py_int (0.1 * room_fs demo_room) \<le> int (length demo_rir) + 1 \<and>
   fst (create_animation demo_globals demo_room demo_rir (0, 0) demo_rir ''ism_anim_2'' empty_world) = Inr () \<and>
   (\<exists>v. files (snd (create_animation demo_globals demo_room demo_rir (0, 0) demo_rir ''ism_anim_2''
                       empty_world)) = [''ism_anim_2.mp4'' \<mapsto> v] \<and>
        writer v = ''FFMpegFileWriter'' \<and> fps v = 60 \<and> length (frames v) = 3 \<and>
        map radius (fst (snd (fst (frames v ! 1)))) = [343 / 30, 343 / 30, 343 / 30, 343 / 30, 343 / 30] \<and>
        xlim (fst (fst (frames v ! 1))) = Some (0, 10)) \<and>
   figures (snd (create_animation demo_globals demo_room demo_rir (0, 0) demo_rir ''ism_anim_2''
                   empty_world)) = [] \<and>
   (\<exists>v. files (snd (create_animation_defaults demo_globals demo_room demo_rir empty_world))
           = [''ism_anim.mp4'' \<mapsto> v] \<and> fps v = 60 \<and> length (frames v) = 3)"
proof -
  have n: "1 \<le> py_int (0.1 * room_fs demo_room)"
    "py_int (0.1 * room_fs demo_room) \<le> int (length demo_rir) + 1"
    unfolding more_demo_facts by simp_all
  have ok: "room_max_order demo_room < 0 \<or> length (orders demo_source_1) = length (images demo_source_1)"
    by (simp add: demo_facts)
  have i: "py_index (mic_positions demo_room) (fst (0 :: int, 0 :: int)) = Inr (6.316, 3.754)"
    "py_index (room_sources demo_room) (snd (0 :: int, 0 :: int)) = Inr demo_source_1"
    by (simp_all add: demo_facts)
  have g: "demo_globals ''room_dim'' = Some [10, 6]" "2 \<le> length [10, 6 :: real]"
    by (simp_all add: demo_facts)
  have e: "figures empty_world = []" "files empty_world = Map.empty"
    by (simp_all add: empty_world_def)
  have three: "nat (py_int (0.1 * room_fs demo_room)) = 3"
    unfolding more_demo_facts by simp
  note t = create_animation_exports_mp4 [where g = demo_globals and rir = demo_rir and init_rir = demo_rir
      and filename = "''ism_anim_2''" and w = empty_world, OF i ok g n, unfolded e three]
  from t obtain v where
    r: "fst (create_animation demo_globals demo_room demo_rir (0, 0) demo_rir ''ism_anim_2'' empty_world) = Inr ()"
    and f: "files (snd (create_animation demo_globals demo_room demo_rir (0, 0) demo_rir ''ism_anim_2''
                       empty_world)) = [''ism_anim_2'' @ ''.mp4'' \<mapsto> v]"
    and wr: "writer v = ''FFMpegFileWriter''" and fp: "fps v = 60" and len: "length (frames v) = 3"
    and fr: "\<forall>k < 3.
             map radius (fst (snd (fst (frames v ! k))))
               = replicate (length (filter (\<lambda>k. 0 \<le> k \<and> k \<le> room_max_order demo_room) (orders demo_source_1)))
                   (real k / room_fs demo_room * 343) \<and>
             xlim (fst (fst (frames v ! k))) = Some (0, [10, 6] ! 0)"
    and fig: "figures (snd (create_animation demo_globals demo_room demo_rir (0, 0) demo_rir ''ism_anim_2''
                   empty_world)) = []"
    and d: "(0 :: int, 0 :: int) = (0, 0) \<longrightarrow>
        fst (create_animation_defaults demo_globals demo_room demo_rir empty_world) = Inr () \<and>
        (\<exists>v. files (snd (create_animation_defaults demo_globals demo_room demo_rir empty_world))
                = [''ism_anim.mp4'' \<mapsto> v] \<and>
             writer v = ''FFMpegFileWriter'' \<and> fps v = 60 \<and>
             length (frames v) = 3) \<and>
        figures (snd (create_animation_defaults demo_globals demo_room demo_rir empty_world)) = []"
    by (elim exE conjE)
  have one: "(1 :: nat) < 3" by simp
  note f1 = fr [rule_format, OF one]
  from f have 1: "files (snd (create_animation demo_globals demo_room demo_rir (0, 0) demo_rir ''ism_anim_2''
                       empty_world)) = [''ism_anim_2.mp4'' \<mapsto> v]"
    by simp
  from f1 have 2: "map radius (fst (snd (fst (frames v ! 1)))) = [343 / 30, 343 / 30, 343 / 30, 343 / 30, 343 / 30]"
    by (simp add: more_demo_facts demo_facts(7))
  from f1 have 3: "xlim (fst (fst (frames v ! 1))) = Some (0, 10)"
    by simp
  have a: "\<exists>v. files (snd (create_animation demo_globals demo_room demo_rir (0, 0) demo_rir ''ism_anim_2''
                       empty_world)) = [''ism_anim_2.mp4'' \<mapsto> v] \<and>
        writer v = ''FFMpegFileWriter'' \<and> fps v = 60 \<and> length (frames v) = 3 \<and>
        map radius (fst (snd (fst (frames v ! 1)))) = [343 / 30, 343 / 30, 343 / 30, 343 / 30, 343 / 30] \<and>
        xlim (fst (fst (frames v ! 1))) = Some (0, 10)"
    apply (rule exI [of _ v])
    using 1 wr fp len 2 3 by (simp only: simp_thms)
  from d obtain v' where
    "files (snd (create_animation_defaults demo_globals demo_room demo_rir empty_world))
                = [''ism_anim.mp4'' \<mapsto> v']" "fps v' = 60" "length (frames v') = 3"
    by (elim impE exE conjE) (rule refl)
  then have b: "\<exists>v. files (snd (create_animation_defaults demo_globals demo_room demo_rir empty_world))
           = [''ism_anim.mp4'' \<mapsto> v] \<and> fps v = 60 \<and> length (frames v) = 3"
    by (intro exI [of _ v'] conjI)
  from i demo_facts(3) g n r a fig b show ?thesis by (simp only: simp_thms)
qed

text \<open>
  Claim C9 as stated, for every call, does not hold, also when the call reaches the
  export. At the rate 9 the frame count is 0: the encoder gets no frame,
  \<^verbatim>\<open>CalledProcessError\<close> is raised, no file is written and the figure stays open. At the
  rate 50 with a response of two samples \<^verbatim>\<open>ValueError\<close> is raised while frame 3 is drawn,
  and the figure stays open as well.
\<close>

theorem create_animation_no_frame_no_file:
  "py_int (0.1 * room_fs no_frame_room) = 0 \<and>
   fst (create_animation demo_globals no_frame_room demo_rir (0, 0) [] ''ism_anim'' empty_world)
     = Inl CalledProcessError \<and>
   files (snd (create_animation demo_globals no_frame_room demo_rir (0, 0) [] ''ism_anim'' empty_world))
     ''ism_anim.mp4'' = None \<and>
   length (figures (snd (create_animation demo_globals no_frame_room demo_rir (0, 0) [] ''ism_anim''
                           empty_world))) = 1 \<and>
   fst (create_animation demo_globals five_frame_room short_rir (0, 0) [] ''ism_anim'' empty_world)
     = Inl ValueError \<and>
   length (figures (snd (create_animation demo_globals five_frame_room short_rir (0, 0) [] ''ism_anim''
                           empty_world))) = 1 \<and>
   figures empty_world = []"
proof -
  have g: "demo_globals ''room_dim'' = Some [10, 6]" "2 \<le> length [10, 6 :: real]"
    by (simp_all add: demo_facts)
  have e: "figures empty_world = []" "files empty_world = Map.empty"
    by (simp_all add: empty_world_def)
  have i0: "py_index (mic_positions no_frame_room) (fst (0 :: int, 0 :: int)) = Inr (6.316, 3.754)"
    "py_index (room_sources no_frame_room) (snd (0 :: int, 0 :: int)) = Inr demo_source_1"
    by (simp_all add: demo_facts more_demo_facts)
  have ok0: "room_max_order no_frame_room < 0 \<or> length (orders demo_source_1) = length (images demo_source_1)"
    by (simp add: demo_facts)
  have n0: "0 \<le> py_int (0.1 * room_fs no_frame_room)" "room_fs no_frame_room \<noteq> 0"
    "filter (\<lambda>k. 0 \<le> k \<and> k \<le> room_max_order no_frame_room) (orders demo_source_1) \<noteq> []"
    by (simp_all add: more_demo_facts py_int_def)
  note o0 = create_animation_outcome [where g = demo_globals and init_rir = "[]" and rir = demo_rir
      and filename = "''ism_anim''" and w = empty_world, OF i0 ok0 g n0,
      unfolded more_demo_facts(4) e]
  have 1: "fst (create_animation demo_globals no_frame_room demo_rir (0, 0) [] ''ism_anim'' empty_world)
     = Inl CalledProcessError"
    using o0(1) by simp
  have 2: "files (snd (create_animation demo_globals no_frame_room demo_rir (0, 0) [] ''ism_anim'' empty_world))
     ''ism_anim.mp4'' = None"
    using o0(2) by simp
  have 3: "length (figures (snd (create_animation demo_globals no_frame_room demo_rir (0, 0) [] ''ism_anim''
                           empty_world))) = 1"
    using o0(3) by simp
  have i: "py_index (mic_positions five_frame_room) (fst (0 :: int, 0 :: int)) = Inr (6.316, 3.754)"
    "py_index (room_sources five_frame_room) (snd (0 :: int, 0 :: int)) = Inr demo_source_1"
    by (simp_all add: demo_facts more_demo_facts)
  have ok: "room_max_order five_frame_room < 0 \<or> length (orders demo_source_1) = length (images demo_source_1)"
    by (simp add: demo_facts)
  have n: "0 \<le> py_int (0.1 * room_fs five_frame_room)" "room_fs five_frame_room \<noteq> 0"
    "filter (\<lambda>k. 0 \<le> k \<and> k \<le> room_max_order five_frame_room) (orders demo_source_1) \<noteq> []"
    by (simp_all add: more_demo_facts py_int_def)
  have short: "takeWhile (\<lambda>n. broadcastable (nat n) (length (slice_to short_rir n))) [0, 1, 2, 3, 4]
                 = [0, 1, 2]"
    "list_all (\<lambda>n. broadcastable (nat n) (length (slice_to short_rir n))) [0, 1, 2, 3, 4] = False"
    by (simp_all add: broadcastable_def slice_to_def short_rir_def)
  note o = create_animation_outcome [where g = demo_globals and init_rir = "[]" and rir = short_rir
      and filename = "''ism_anim''" and w = empty_world, OF i ok g n,
      unfolded more_demo_facts(2) short e]
  have 4: "fst (create_animation demo_globals five_frame_room short_rir (0, 0) [] ''ism_anim'' empty_world)
     = Inl ValueError"
    using o(1) by simp
  have 5: "length (figures (snd (create_animation demo_globals five_frame_room short_rir (0, 0) [] ''ism_anim''
                           empty_world))) = 1"
    using o(3) by simp
  from 1 2 3 4 5 e(1) more_demo_facts(6) show ?thesis by (simp only: simp_thms)
qed

text \<open>
  Claim C4 says that the outcome of \<^verbatim>\<open>create_animation\<close> is determined by its arguments
  alone. The function reads the module-level name \<^verbatim>\<open>room_dim\<close>, so it is not: with the
  same arguments and the same state of the plotting library, the call returns normally
  under the binding of the script, raises \<^verbatim>\<open>NameError\<close> without a binding, and under
  another binding writes a video whose frames have other view limits.
\<close>

theorem create_animation_depends_on_globals:
  "fst (create_animation demo_globals demo_room demo_rir (0, 0) [] ''ism_anim'' empty_world) = Inr () \<and>
   fst (create_animation no_globals demo_room demo_rir (0, 0) [] ''ism_anim'' empty_world) = Inl NameError \<and>
   (\<exists>v. files (snd (create_animation demo_globals demo_room demo_rir (0, 0) [] ''ism_anim'' empty_world))
           ''ism_anim.mp4'' = Some v \<and>
        map (\<lambda>pic. xlim (fst (fst pic))) (frames v) = [Some (0, 10), Some (0, 10), Some (0, 10)]) \<and>
   (\<exists>v. files (snd (create_animation other_globals demo_room demo_rir (0, 0) [] ''ism_anim'' empty_world))
           ''ism_anim.mp4'' = Some v \<and>
        map (\<lambda>pic. xlim (fst (fst pic))) (frames v) = [Some (0, 5), Some (0, 5), Some (0, 5)])"
proof -
  have i: "py_index (mic_positions demo_room) (fst (0 :: int, 0 :: int)) = Inr (6.316, 3.754)"
    "py_index (room_sources demo_room) (snd (0 :: int, 0 :: int)) = Inr demo_source_1"
    by (simp_all add: demo_facts)
  have ok: "room_max_order demo_room < 0 \<or> length (orders demo_source_1) = length (images demo_source_1)"
    by (simp add: demo_facts)
  have n: "1 \<le> py_int (0.1 * room_fs demo_room)"
    "py_int (0.1 * room_fs demo_room) \<le> int (length demo_rir) + 1"
    unfolding more_demo_facts by simp_all
  have three: "nat (py_int (0.1 * room_fs demo_room)) = 3"
    unfolding more_demo_facts by simp
  have run: "fst (create_animation g demo_room demo_rir (0, 0) [] ''ism_anim'' empty_world) = Inr () \<and>
     (\<exists>v. files (snd (create_animation g demo_room demo_rir (0, 0) [] ''ism_anim'' empty_world))
           ''ism_anim.mp4'' = Some v \<and>
        map (\<lambda>pic. xlim (fst (fst pic))) (frames v) = [Some (0, a), Some (0, a), Some (0, a)])"
    if gl: "g ''room_dim'' = Some [a, b]" for g a b
  proof -
    have two: "2 \<le> length [a, b]" by simp
    from create_animation_frames [where g = g and w = empty_world and init_rir = "[]"
        and filename = "''ism_anim''", OF i ok gl two n, unfolded three]
    obtain v where
      r: "fst (create_animation g demo_room demo_rir (0, 0) [] ''ism_anim'' empty_world) = Inr ()"
      and f: "files (snd (create_animation g demo_room demo_rir (0, 0) [] ''ism_anim'' empty_world))
         = (files empty_world)(''ism_anim'' @ ''.mp4'' \<mapsto> v)"
      and len: "length (frames v) = 3"
      and fr: "\<forall>k < 3.
          map radius (fst (snd (fst (frames v ! k))))
            = replicate (length (filter (\<lambda>k. 0 \<le> k \<and> k \<le> room_max_order demo_room) (orders demo_source_1)))
                (real k / room_fs demo_room * 343) \<and>
          map alpha (fst (snd (fst (frames v ! k))))
            = replicate (length (filter (\<lambda>k. 0 \<le> k \<and> k \<le> room_max_order demo_room) (orders demo_source_1)))
                (Some (1 - real k / room_fs demo_room * 10)) \<and>
          map center (fst (snd (fst (frames v ! k))))
            = concat (map (images_of_order demo_source_1) (py_range (room_max_order demo_room + 1))) \<and>
          xlim (fst (fst (frames v ! k))) = Some (0, [a, b] ! 0) \<and>
          (filter (\<lambda>k. 0 \<le> k \<and> k \<le> room_max_order demo_room) (orders demo_source_1) \<noteq> [] \<longrightarrow>
             last (snd (snd (snd (frames v ! k))))
               = \<lparr>xdata = map (\<lambda>j. real j / room_fs demo_room) [0..<k], ydata = take k demo_rir\<rparr> \<and>
             title (fst (fst (frames v ! k))) = animate_title (real k / room_fs demo_room))"
      by (elim exE conjE)
    have x: "xlim (fst (fst (frames v ! k))) = Some (0, a)" if "k < 3" for k
      using fr [rule_format, OF that] by simp
    have "map (\<lambda>pic. xlim (fst (fst pic))) (frames v) = replicate 3 (Some (0, a))"
      by (rule nth_equalityI) (simp_all add: len x)
    then have m: "map (\<lambda>pic. xlim (fst (fst pic))) (frames v) = [Some (0, a), Some (0, a), Some (0, a)]"
      by (simp add: numeral_3_eq_3)
    from f have f': "files (snd (create_animation g demo_room demo_rir (0, 0) [] ''ism_anim'' empty_world))
           ''ism_anim.mp4'' = Some v"
      by simp
    have "\<exists>v. files (snd (create_animation g demo_room demo_rir (0, 0) [] ''ism_anim'' empty_world))
           ''ism_anim.mp4'' = Some v \<and>
        map (\<lambda>pic. xlim (fst (fst pic))) (frames v) = [Some (0, a), Some (0, a), Some (0, a)]"
      by (rule exI [of _ v], rule conjI [OF f' m])
    with r show ?thesis by (simp only: simp_thms)
  qed
  from open_and_plot_ok [OF i ok, of empty_world "[]"]
  obtain axs line props w1 where
    op: "open_and_plot demo_room (0, 0) [] empty_world = (Inr (axs, line, props), w1)"
    by blast
  have ne: "fst (create_animation no_globals demo_room demo_rir (0, 0) [] ''ism_anim'' empty_world)
          = Inl NameError"
    using create_animation_name_error [where g = no_globals and rir = demo_rir
        and filename = "''ism_anim''", OF op demo_facts(6)] by simp
  from run [where g = demo_globals, OF demo_facts(4)] run [where g = other_globals, OF demo_facts(5)] ne
  show ?thesis
    by (simp only: simp_thms)
qed

text \<open>
  Claim C5, as amended. When the module-level name \<^verbatim>\<open>room_dim\<close> is not bound,
  \<^verbatim>\<open>create_animation\<close> never returns normally. If the microphone and the source are found
  and \<^verbatim>\<open>plot_room\<close> returns, it raises \<^verbatim>\<open>NameError\<close>, with the figure it opened still open,
  the static plot drawn in it and no file written.
\<close>

theorem create_animation_without_room_dim:
  assumes "g ''room_dim'' = None"
  shows "fst (create_animation g room rir src_recv_idx init_rir filename w) \<noteq> Inr () \<and>
     (\<forall>mic_pos im_sources.
        py_index (mic_positions room) (fst src_recv_idx) = Inr mic_pos \<and>
        py_index (room_sources room) (snd src_recv_idx) = Inr im_sources \<and>
        (room_max_order room < 0 \<or> length (orders im_sources) = length (images im_sources)) \<longrightarrow>
        create_animation g room rir src_recv_idx init_rir filename w =
          (Inl NameError,
           (snd (subplots w))\<lparr>objects :=
              snd (plot_room (fst (subplots w)) (room_walls room) mic_pos im_sources
                     (room_max_order room) (room_fs room) init_rir (objects (snd (subplots w))))\<rparr>) \<and>
        figures (snd (create_animation g room rir src_recv_idx init_rir filename w)) =
          figures w @ [\<lparr>fig_axes = fst (subplots w), figsize = (6, 6), height_ratios = [3, 1],
                        tight = False\<rparr>] \<and>
        files (snd (create_animation g room rir src_recv_idx init_rir filename w)) = files w)"
proof (intro conjI allI impI)
  show "fst (create_animation g room rir src_recv_idx init_rir filename w) \<noteq> Inr ()"
    using assms by (rule create_animation_needs_global)
next
  fix mic_pos im_sources
  assume a: "py_index (mic_positions room) (fst src_recv_idx) = Inr mic_pos \<and>
        py_index (room_sources room) (snd src_recv_idx) = Inr im_sources \<and>
        (room_max_order room < 0 \<or> length (orders im_sources) = length (images im_sources))"
  let ?w1 = "(snd (subplots w))\<lparr>objects :=
              snd (plot_room (fst (subplots w)) (room_walls room) mic_pos im_sources
                     (room_max_order room) (room_fs room) init_rir (objects (snd (subplots w))))\<rparr>"
  from a open_and_plot_ok [of room src_recv_idx mic_pos im_sources w init_rir]
  obtain line props where
    op: "open_and_plot room src_recv_idx init_rir w = (Inr (fst (subplots w), line, props), ?w1)"
    by blast
  from op assms show ca: "create_animation g room rir src_recv_idx init_rir filename w = (Inl NameError, ?w1)"
    by (rule create_animation_name_error)
  show "figures (snd (create_animation g room rir src_recv_idx init_rir filename w)) =
          figures w @ [\<lparr>fig_axes = fst (subplots w), figsize = (6, 6), height_ratios = [3, 1],
                        tight = False\<rparr>]"
    by (simp add: ca subplots_fields)
  show "files (snd (create_animation g room rir src_recv_idx init_rir filename w)) = files w"
    by (simp add: ca subplots_fields)
qed

theorem create_animation_without_room_dim_witness:
  "no_globals ''room_dim'' = None \<and>
   py_index (mic_positions demo_room) (fst (0 :: int, 0 :: int)) = Inr (6.316, 3.754) \<and>
   py_index (room_sources demo_room) (snd (0 :: int, 0 :: int)) = Inr demo_source_1 \<and>
   length (orders demo_source_1) = length (images demo_source_1) \<and>
   fst (create_animation no_globals demo_room demo_rir (0, 0) [] ''ism_anim'' empty_world) = Inl NameError \<and>
   figures (snd (create_animation no_globals demo_room demo_rir (0, 0) [] ''ism_anim'' empty_world)) =
     [\<lparr>fig_axes = (0, 1), figsize = (6, 6), height_ratios = [3, 1], tight = False\<rparr>] \<and>
   files (snd (create_animation no_globals demo_room demo_rir (0, 0) [] ''ism_anim'' empty_world))
     = Map.empty"
proof -
  have i: "py_index (mic_positions demo_room) (fst (0 :: int, 0 :: int)) = Inr (6.316, 3.754)"
    "py_index (room_sources demo_room) (snd (0 :: int, 0 :: int)) = Inr demo_source_1"
    by (simp_all add: demo_facts)
  have e: "figures empty_world = []" "files empty_world = Map.empty" "fst (subplots empty_world) = (0, 1)"
    by (simp_all add: empty_world_def empty_store_def subplots_fields)
  note t = create_animation_without_room_dim [where g = no_globals and room = demo_room
      and rir = demo_rir and src_recv_idx = "(0, 0)" and init_rir = "[]" and filename = "''ism_anim''"
      and w = empty_world, OF demo_facts(6)]
  have pre: "py_index (mic_positions demo_room) (fst (0 :: int, 0 :: int)) = Inr (6.316, 3.754) \<and>
        py_index (room_sources demo_room) (snd (0 :: int, 0 :: int)) = Inr demo_source_1 \<and>
        (room_max_order demo_room < 0 \<or> length (orders demo_source_1) = length (images demo_source_1))"
    using i demo_facts(3) by simp
  from t [THEN conjunct2, rule_format, OF pre]
  have "fst (create_animation no_globals demo_room demo_rir (0, 0) [] ''ism_anim'' empty_world) = Inl NameError \<and>
   figures (snd (create_animation no_globals demo_room demo_rir (0, 0) [] ''ism_anim'' empty_world)) =
     [\<lparr>fig_axes = (0, 1), figsize = (6, 6), height_ratios = [3, 1], tight = False\<rparr>] \<and>
   files (snd (create_animation no_globals demo_room demo_rir (0, 0) [] ''ism_anim'' empty_world))
     = Map.empty"
    unfolding e by (simp add: subplots_fields empty_world_def empty_store_def)
  with i demo_facts(3,6) show ?thesis by simp
qed

text \<open>
  Claim C5 as stated, for every argument tuple, does not hold.
  Without the binding the exception is not always \<^verbatim>\<open>NameError\<close>: the room has two
  microphones, so the receiver index 5 raises \<^verbatim>\<open>IndexError\<close> while the arguments of
  \<^verbatim>\<open>plot_room\<close> are evaluated, before any line that reads \<^verbatim>\<open>room_dim\<close>.
\<close>

theorem create_animation_index_error_first:
  "no_globals ''room_dim'' = None \<and>
   fst (create_animation no_globals demo_room demo_rir (5, 0) [] ''ism_anim'' empty_world) = Inl IndexError \<and>
   fst (create_animation no_globals demo_room demo_rir (5, 0) [] ''ism_anim'' empty_world) \<noteq> Inl NameError"
proof -
  have "py_index (mic_positions demo_room) 5 = Inl IndexError"
    by (simp add: py_index_def demo_room_def)
  then have "fst (create_animation no_globals demo_room demo_rir (5, 0) [] ''ism_anim'' empty_world)
               = Inl IndexError"
    by (simp add: create_animation_def open_and_plot_def split_beta)
  then show ?thesis by (simp add: demo_facts)
qed

end
